theory Spec2Isabelle
  imports Main
begin

section \<open>Values, nodes, relationships and errors\<close>

text \<open>
  Property values as the Neo4j driver hands them to the TypeScript code (integers are
  plain numbers, the driver runs with disableLosslessIntegers). A JavaScript object or a
  Cypher map with string keys is an association list; a key that is missing reads as
  \<open>undefined\<close> in JavaScript and as \<open>null\<close> in Cypher.
\<close>

datatype pval = PNull | PBool bool | PInt int | PStr string

type_synonym props = "(string \<times> pval) list"

text \<open>A node and a relationship as the driver returns them (identity, labels, properties).\<close>

record neo_node =
  identity :: nat
  labels :: "string list"
  properties :: props

record neo_rel =
  rel_identity :: nat
  rel_type :: string
  startNode :: nat
  endNode :: nat
  rel_properties :: props

record graph =
  nodes :: "neo_node list"
  relationships :: "neo_rel list"

text \<open>
  Everything the code throws: a plain \<open>Error\<close>, the \<open>UndoConflictError\<close> subclass, the
  \<open>TypeError\<close> of reading a member of \<open>null\<close>, and the failure that
  \<open>apoc.util.validate\<close> raises inside the database.
\<close>

datatype error =
    Error string
  | UndoConflictError string
  | TypeError
  | ValidateFailed string

definition hasLabel :: "neo_node \<Rightarrow> string \<Rightarrow> bool" where
  "hasLabel n l = (l \<in> set (labels n))"

definition getProp :: "props \<Rightarrow> string \<Rightarrow> pval" where
  "getProp ps k = (case map_of ps k of None \<Rightarrow> PNull | Some v \<Rightarrow> v)"

section \<open>The trackActionChanges trigger (layer4/schema.ts)\<close>

text \<open>
  What Neo4j hands to a trigger of phase "before": the write set of the transaction. Nodes
  are referred to by identity and read in the state the trigger sees; the maps from a
  label or a property key to a list are association lists.
\<close>

record node_prop_change =
  npc_key :: string
  npc_old :: pval
  npc_new :: pval
  npc_node :: nat

record rel_prop_change =
  rpc_key :: string
  rpc_old :: pval
  rpc_new :: pval
  rpc_relationship :: neo_rel

record txdata =
  tx_createdNodes :: "nat list"
  tx_deletedNodes :: "nat list"
  tx_assignedLabels :: "(string \<times> nat list) list"
  tx_removedLabels :: "(string \<times> nat list) list"
  tx_assignedNodeProperties :: "(string \<times> node_prop_change list) list"
  tx_removedNodeProperties :: "(string \<times> node_prop_change list) list"
  tx_createdRelationships :: "neo_rel list"
  tx_deletedRelationships :: "neo_rel list"
  tx_assignedRelationshipProperties :: "(string \<times> rel_prop_change list) list"
  tx_removedRelationshipProperties :: "(string \<times> rel_prop_change list) list"

text \<open>One element of the list the trigger unwinds.\<close>

record change =
  modifiedNode :: nat
  changeDetails :: props

definition find_node :: "graph \<Rightarrow> nat \<Rightarrow> neo_node option" where
  "find_node g i = find (\<lambda>n. identity n = i) (nodes g)"

text \<open>\<open>n:Label\<close> and \<open>labels(n)\<close> for a node reference; a node that is gone has no label.\<close>

definition labels_of :: "graph \<Rightarrow> nat \<Rightarrow> string list" where
  "labels_of g i = (case find_node g i of None \<Rightarrow> [] | Some n \<Rightarrow> labels n)"

definition is_labelled :: "graph \<Rightarrow> nat \<Rightarrow> string \<Rightarrow> bool" where
  "is_labelled g i l = (l \<in> set (labels_of g i))"

text \<open>\<open>n.id\<close>, the VNID of a node reference (null when there is none).\<close>

definition vnid_of :: "graph \<Rightarrow> nat \<Rightarrow> pval" where
  "vnid_of g i = (case find_node g i of None \<Rightarrow> PNull | Some n \<Rightarrow> getProp (properties n) ''id'')"

text \<open>A map entry read by key, an absent key giving the empty list (\<open>x IN null\<close> is not true).\<close>

definition lookup_list :: "(string \<times> 'a list) list \<Rightarrow> string \<Rightarrow> 'a list" where
  "lookup_list m k = (case map_of m k of None \<Rightarrow> [] | Some xs \<Rightarrow> xs)"

text \<open>
  \<open>apoc.coll.flatten([k in keys(m) | apoc.coll.zip(apoc.coll.fill(k, size(m[k])), m[k])])\<close>
  and \<open>apoc.coll.flatten(apoc.map.values(m, keys(m)))\<close>.
\<close>

definition label_pairs :: "(string \<times> nat list) list \<Rightarrow> (string \<times> nat) list" where
  "label_pairs m = concat (map (\<lambda>(k, ns). map (\<lambda>n. (k, n)) ns) m)"

definition map_values :: "(string \<times> 'a list) list \<Rightarrow> 'a list" where
  "map_values m = concat (map snd m)"

text \<open>Decimal digits of a number, for \<open>'newRel:' + id(rel)\<close> and the \<open>%d\<close> of a message.\<close>

definition digit_char :: "nat \<Rightarrow> char" where
  "digit_char d = ''0123456789'' ! d"

function show_nat :: "nat \<Rightarrow> string" where
  "show_nat n = (if n < 10 then [digit_char n] else show_nat (n div 10) @ [digit_char (n mod 10)])"
  by pat_completeness auto
termination
  by (relation "measure id") auto

declare show_nat.simps [simp del]

text \<open>\<open>apoc.text.join(xs, sep)\<close>.\<close>

fun text_join :: "string list \<Rightarrow> string \<Rightarrow> string" where
  "text_join [] sep = []"
| "text_join [x] sep = x"
| "text_join (x # y # ys) sep = x @ sep @ text_join (y # ys) sep"

text \<open>
  \<open>SET r += m\<close>: every entry of the map is written, a null entry removing the property.
\<close>

definition set_property :: "props \<Rightarrow> string \<Rightarrow> pval \<Rightarrow> props" where
  "set_property ps k v =
     (if v = PNull then filter (\<lambda>kv. fst kv \<noteq> k) ps
      else if k \<in> fst ` set ps then map (\<lambda>kv. if fst kv = k then (k, v) else kv) ps
      else ps @ [(k, v)])"

fun add_properties :: "props \<Rightarrow> props \<Rightarrow> props" where
  "add_properties ps [] = ps"
| "add_properties ps ((k, v) # m) = add_properties (set_property ps k v) m"

text \<open>\<open>[n IN $createdNodes WHERE n:Action:VNode]\<close>\<close>

definition actions :: "txdata \<Rightarrow> graph \<Rightarrow> nat list" where
  "actions tx g = filter (\<lambda>n. is_labelled g n ''Action'' \<and> is_labelled g n ''VNode'') (tx_createdNodes tx)"

text \<open>The number stored as \<open>action.deletedNodesCount\<close>.\<close>

definition deletedNodesCount :: "txdata \<Rightarrow> nat" where
  "deletedNodesCount tx =
     length (filter (\<lambda>dn. dn \<in> set (lookup_list (tx_removedLabels tx) ''VNode'')
                         \<or> dn \<in> set (lookup_list (tx_removedLabels tx) ''DeletedVNode''))
               (tx_deletedNodes tx))"

text \<open>The six lists of changes, in the order of the query.\<close>

definition chg_createdNodes :: "txdata \<Rightarrow> graph \<Rightarrow> change list" where
  "chg_createdNodes tx g =
     map (\<lambda>n. \<lparr> modifiedNode = n, changeDetails = [(''created'', PStr (text_join (labels_of g n) '',''))] \<rparr>)
       (filter (\<lambda>n. \<not> is_labelled g n ''Action'' \<and> \<not> is_labelled g n ''SlugId'') (tx_createdNodes tx))"

definition chg_newLabels :: "txdata \<Rightarrow> graph \<Rightarrow> change list" where
  "chg_newLabels tx g =
     map (\<lambda>pair. \<lparr> modifiedNode = snd pair, changeDetails = [(''addedLabel:'' @ fst pair, PBool True)] \<rparr>)
       (filter (\<lambda>pair. (is_labelled g (snd pair) ''VNode'' \<or> is_labelled g (snd pair) ''DeletedVNode'')
                      \<and> snd pair \<notin> set (tx_createdNodes tx))
          (label_pairs (tx_assignedLabels tx)))"

definition chg_removedLabels :: "txdata \<Rightarrow> graph \<Rightarrow> change list" where
  "chg_removedLabels tx g =
     map (\<lambda>pair. \<lparr> modifiedNode = snd pair, changeDetails = [(''removedLabel:'' @ fst pair, PBool True)] \<rparr>)
       (filter (\<lambda>pair. (is_labelled g (snd pair) ''VNode'' \<or> is_labelled g (snd pair) ''DeletedVNode'')
                      \<and> snd pair \<notin> set (tx_deletedNodes tx))
          (label_pairs (tx_removedLabels tx)))"

definition chg_newPropertyNodes :: "txdata \<Rightarrow> graph \<Rightarrow> nat \<Rightarrow> change list" where
  "chg_newPropertyNodes tx g action =
     map (\<lambda>c. \<lparr> modifiedNode = npc_node c,
                changeDetails = [(''newProp:'' @ npc_key c, npc_new c), (''oldProp:'' @ npc_key c, npc_old c)] \<rparr>)
       (filter (\<lambda>c. is_labelled g (npc_node c) ''VNode'' \<and> npc_node c \<noteq> action
                   \<and> npc_node c \<notin> set (tx_deletedNodes tx))
          (map_values (tx_assignedNodeProperties tx) @ map_values (tx_removedNodeProperties tx)))"

definition chg_newRelationships :: "txdata \<Rightarrow> graph \<Rightarrow> nat \<Rightarrow> change list" where
  "chg_newRelationships tx g action =
     map (\<lambda>r. \<lparr> modifiedNode = startNode r,
                changeDetails =
                  (''newRel:'' @ show_nat (rel_identity r) @ '':'' @ rel_type r, vnid_of g (endNode r))
                  # map (\<lambda>(p, v). (''newRelProp:'' @ show_nat (rel_identity r) @ '':'' @ p, v))
                      (rel_properties r) \<rparr>)
       (filter (\<lambda>r. is_labelled g (startNode r) ''VNode'' \<and> startNode r \<noteq> action \<and> endNode r \<noteq> action)
          (tx_createdRelationships tx))"

definition chg_deletedRelationships :: "txdata \<Rightarrow> graph \<Rightarrow> nat \<Rightarrow> change list" where
  "chg_deletedRelationships tx g action =
     map (\<lambda>r. \<lparr> modifiedNode = startNode r,
                changeDetails =
                  (''deletedRel:'' @ show_nat (rel_identity r) @ '':'' @ rel_type r, vnid_of g (endNode r))
                  # map (\<lambda>chg. (''deletedRelProp:'' @ show_nat (rel_identity r) @ '':'' @ rpc_key chg, rpc_old chg))
                      (filter (\<lambda>chg. rel_identity (rpc_relationship chg) = rel_identity r)
                         (map_values (tx_removedRelationshipProperties tx))) \<rparr>)
       (filter (\<lambda>r. (is_labelled g (startNode r) ''VNode'' \<or> is_labelled g (startNode r) ''DeletedVNode'')
                   \<and> startNode r \<noteq> action \<and> endNode r \<noteq> action
                   \<and> startNode r \<notin> set (tx_deletedNodes tx) \<and> endNode r \<notin> set (tx_deletedNodes tx))
          (tx_deletedRelationships tx))"

text \<open>
  The relationship property changes that reach \<open>apoc.util.validatePredicate(true, ...)\<close>:
  the list \<open>preventRelChanges\<close> is empty or the query fails.
\<close>

definition changedRelProps :: "txdata \<Rightarrow> graph \<Rightarrow> rel_prop_change list" where
  "changedRelProps tx g =
     filter (\<lambda>c. is_labelled g (startNode (rpc_relationship c)) ''VNode''
                \<and> rel_identity (rpc_relationship c) \<notin> rel_identity ` set (tx_createdRelationships tx)
                \<and> rel_identity (rpc_relationship c) \<notin> rel_identity ` set (tx_deletedRelationships tx))
       (map_values (tx_assignedRelationshipProperties tx) @ map_values (tx_removedRelationshipProperties tx))"

definition all_changes :: "txdata \<Rightarrow> graph \<Rightarrow> nat \<Rightarrow> change list" where
  "all_changes tx g action =
     chg_createdNodes tx g @ chg_newLabels tx g @ chg_removedLabels tx g
     @ chg_newPropertyNodes tx g action @ chg_newRelationships tx g action
     @ chg_deletedRelationships tx g action"

text \<open>\<open>OPTIONAL MATCH (action)-[modRel:MODIFIED]->(modifiedNode)\<close>\<close>

definition is_modRel :: "nat \<Rightarrow> nat \<Rightarrow> neo_rel \<Rightarrow> bool" where
  "is_modRel action n r = (rel_type r = ''MODIFIED'' \<and> startNode r = action \<and> endNode r = n)"

definition has_modRel :: "graph \<Rightarrow> nat \<Rightarrow> nat \<Rightarrow> bool" where
  "has_modRel g action n = list_ex (is_modRel action n) (relationships g)"

definition show_pval :: "pval \<Rightarrow> string" where
  "show_pval v = (case v of PNull \<Rightarrow> ''null'' | PBool b \<Rightarrow> (if b then ''true'' else ''false'')
                   | PInt i \<Rightarrow> (if i < 0 then ''-'' @ show_nat (nat (- i)) else show_nat (nat i))
                   | PStr s \<Rightarrow> s)"

definition not_marked_message :: "graph \<Rightarrow> nat \<Rightarrow> change \<Rightarrow> string" where
  "not_marked_message g action c =
     ''A :'' @ (case labels_of g (modifiedNode c) of [] \<Rightarrow> ''null'' | ls \<Rightarrow> last ls)
     @ '' node was modified by this ''
     @ show_pval (case find_node g action of None \<Rightarrow> PNull | Some a \<Rightarrow> getProp (properties a) ''type'')
     @ '' action ('' @ (case changeDetails c of [] \<Rightarrow> ''null'' | kv # _ \<Rightarrow> fst kv)
     @ '') but not explicitly marked as modified by the Action.''"

text \<open>The rows after the UNWIND, one change at a time: the check, then \<open>SET modRel += changeDetails\<close>.\<close>

fun record_changes :: "graph \<Rightarrow> nat \<Rightarrow> change list \<Rightarrow> error + graph" where
  "record_changes g action [] = Inr g"
| "record_changes g action (c # cs) =
     (if \<not> has_modRel g action (modifiedNode c)
      then Inl (ValidateFailed (not_marked_message g action c))
      else record_changes
             (g\<lparr> relationships :=
                   map (\<lambda>r. if is_modRel action (modifiedNode c) r
                             then r\<lparr> rel_properties := add_properties (rel_properties r) (changeDetails c) \<rparr>
                             else r)
                     (relationships g) \<rparr>)
             action cs)"

definition set_node_property :: "graph \<Rightarrow> nat \<Rightarrow> string \<Rightarrow> pval \<Rightarrow> graph" where
  "set_node_property g i k v =
     g\<lparr> nodes := map (\<lambda>n. if identity n = i then n\<lparr> properties := set_property (properties n) k v \<rparr> else n)
                    (nodes g) \<rparr>"

text \<open>
  The whole trigger, run on the write set and the state of the committing transaction:
  it fails, or returns the state with the change details recorded.
\<close>

definition trackActionChanges :: "txdata \<Rightarrow> graph \<Rightarrow> error + graph" where
  "trackActionChanges tx g =
     (if length (actions tx g) \<noteq> 1
      then Inl (ValidateFailed (''every data write transaction should be associated with one Action, found ''
                  @ show_nat (length (actions tx g))))
      else let action = hd (actions tx g);
               g1 = set_node_property g action ''deletedNodesCount'' (PInt (int (deletedNodesCount tx)))
           in if changedRelProps tx g1 \<noteq> []
              then Inl (ValidateFailed
                     ''Changing relationship properties is not supported by Vertex Framework. Delete and re-create it instead.'')
              else record_changes g1 action (all_changes tx g1 action))"

section \<open>Write transactions (vertex.ts)\<close>

text \<open>
  \<open>_restrictedWrite\<close> runs the code in one write transaction of the driver. The code
  returns its result with the state it reached and the write set the database recorded for
  it, or throws. A throw rolls the transaction back; otherwise the trigger runs before the
  commit and its failure rolls the transaction back as well. The first component of the
  result is the state of the database afterwards. While the trigger is paused
  (\<open>_restrictedAllowWritesWithoutAction\<close>) the commit is unconditional.
\<close>

definition restrictedWrite ::
  "bool \<Rightarrow> graph \<Rightarrow> (graph \<Rightarrow> error + (graph \<times> txdata \<times> 'a)) \<Rightarrow> graph \<times> (error + 'a)" where
  "restrictedWrite paused db code =
     (case code db of
        Inl e \<Rightarrow> (db, Inl e)
      | Inr (g, tx, r) \<Rightarrow>
          if paused then (g, Inr r)
          else (case trackActionChanges tx g of
                  Inl e \<Rightarrow> (db, Inl e)
                | Inr g' \<Rightarrow> (g', Inr r)))"

section \<open>neoNodeToRawVNode (cypher-return-shape)\<close>

text \<open>
  The value of a returned field is a driver \<open>Node\<close> (the only value whose
  \<open>__isNode__\<close> is true) or some other value. The declared properties of a VNode type
  are the entries of its \<open>properties\<close> object; the schema of each entry plays no part in
  the conversion. A VNode type also has its class name, its label and the relationships
  declared from it.
\<close>

datatype field_value = Node neo_node | Plain pval

datatype field_schema = FieldVNID | FieldSlug | FieldString | FieldInt | FieldBoolean | FieldAny

text \<open>
  A relationship declaration: an object (compared by reference, so it carries its
  reference) with the labels of the VNode types it may point to and the relationship type
  stored on it under \<open>relTypeKey\<close> (undefined until the declaring type is registered).
\<close>

record relationship_declaration =
  rd_ref :: nat
  rd_to :: "string list"
  rd_relType :: "string option"

record vnode_type =
  vnt_name :: string
  vnt_label :: string
  vnt_properties :: "(string \<times> field_schema) list"
  vnt_rel :: "(string \<times> relationship_declaration) list"

text \<open>
  JavaScript objects. The properties of a node are the own properties of a plain object,
  which inherits the members of \<open>Object.prototype\<close>: \<open>k in obj\<close> is true for an own
  property and for an inherited member, and \<open>obj[k]\<close> then reads the own value or the
  inherited member. An object that the code builds is a map from names to values: a
  property value, an inherited member (named), a number (the identity), a list of strings
  (the labels) or undefined.
\<close>

definition object_prototype :: "string list" where
  "object_prototype =
     [''constructor'', ''__defineGetter__'', ''__defineSetter__'', ''hasOwnProperty'',
      ''__lookupGetter__'', ''__lookupSetter__'', ''isPrototypeOf'', ''propertyIsEnumerable'',
      ''toString'', ''valueOf'', ''__proto__'', ''toLocaleString'']"

datatype js_value = JProp pval | JInherited string | JNumber nat | JStrings "string list" | JUndefined

type_synonym js_object = "string \<rightharpoonup> js_value"

definition js_in :: "string \<Rightarrow> props \<Rightarrow> bool" where
  "js_in k obj = (k \<in> fst ` set obj \<or> k \<in> set object_prototype)"

definition js_get :: "props \<Rightarrow> string \<Rightarrow> js_value" where
  "js_get obj k =
     (case map_of obj k of
        Some v \<Rightarrow> JProp v
      | None \<Rightarrow> if k \<in> set object_prototype then JInherited k else JUndefined)"

text \<open>
  \<open>obj[k] = v\<close> on an object literal: an own property is written, except that the name
  \<open>__proto__\<close> reaches the inherited setter and leaves no own property.
\<close>

definition js_assign :: "js_object \<Rightarrow> string \<Rightarrow> js_value \<Rightarrow> js_object" where
  "js_assign obj k v = (if k = ''__proto__'' then obj else obj(k \<mapsto> v))"

fun typeof :: "pval \<Rightarrow> string" where
  "typeof PNull = ''object''"
| "typeof (PBool b) = ''boolean''"
| "typeof (PInt i) = ''number''"
| "typeof (PStr s) = ''string''"

text \<open>The loop over \<open>Object.entries(vnodeType.properties)\<close>, filling the object \<open>properties\<close>.\<close>

fun clean_properties :: "(string \<times> field_schema) list \<Rightarrow> props \<Rightarrow> js_object \<Rightarrow> js_object" where
  "clean_properties [] ps obj = obj"
| "clean_properties ((propName, propSchema) # rest) ps obj =
     clean_properties rest ps
       (js_assign obj propName (if js_in propName ps then js_get ps propName else JProp PNull))"

text \<open>
  The function returns \<open>{...properties, _identity: fieldValue.identity, _labels:
  fieldValue.labels}\<close>: the two members are written over the cleaned properties.
\<close>

definition neoNodeToRawVNode :: "field_value \<Rightarrow> vnode_type \<Rightarrow> string \<Rightarrow> error + js_object" where
  "neoNodeToRawVNode fieldValue vnodeType fieldName =
     (case fieldValue of
        Plain PNull \<Rightarrow> Inl TypeError
      | Plain v \<Rightarrow> Inl (Error (''Field '' @ fieldName @ '' is of type '' @ typeof v @ '', not a VNode.''))
      | Node n \<Rightarrow>
          if ''DeletedVNode'' \<in> set (labels n)
          then Inl (Error (''Field '' @ fieldName @
                 '' matched a deleted VNode - check your query and match only nodes with the :VNode label''))
          else if ''VNode'' \<notin> set (labels n)
          then Inl (Error (''Field '' @ fieldName @ '' is a node but is missing the VNode label''))
          else Inr ((clean_properties (vnt_properties vnodeType) (properties n) Map.empty)
                      (''_identity'' \<mapsto> JNumber (identity n), ''_labels'' \<mapsto> JStrings (labels n))))"

text \<open>A member of the object a call returned (nothing when the call threw).\<close>

definition member_of :: "error + js_object \<Rightarrow> string \<Rightarrow> js_value option" where
  "member_of res k = (case res of Inl e \<Rightarrow> None | Inr obj \<Rightarrow> obj k)"

section \<open>UndoAction (layer4/action-generic.ts)\<close>

text \<open>
  The change set of an Action as \<open>apply\<close> uses it: created nodes with the properties
  recorded for them, modified nodes with the old and the new value of every changed
  property, created and deleted relationships, the VNIDs of soft-deleted and of un-deleted
  nodes, and the count of nodes that were deleted for good.
\<close>

record created_node =
  cn_id :: string
  cn_properties :: props

record modified_node =
  mn_id :: string
  mn_properties :: "(string \<times> pval \<times> pval) list"

record rel_change =
  rc_type :: string
  rc_from :: string
  rc_to :: string
  rc_properties :: props

record ActionChangeSet =
  cs_createdNodes :: "created_node list"
  cs_modifiedNodes :: "modified_node list"
  cs_createdRelationships :: "rel_change list"
  cs_deletedRelationships :: "rel_change list"
  cs_softDeletedNodes :: "string list"
  cs_unDeletedNodes :: "string list"
  cs_deletedNodesCount :: nat

text \<open>What \<open>tx.pullOne(Action, a => a.deletedNodesCount.revertedBy(ra => ra.id), {key})\<close> returns.\<close>

record prev_action =
  pa_deletedNodesCount :: nat
  pa_revertedBy :: "string option"

record apply_result =
  resultData :: props
  modifiedNodes :: "string list"

text \<open>\<open>MATCH (n:Label {id: x})\<close> and \<open>n.id IN xs\<close>.\<close>

definition nodes_with_id :: "graph \<Rightarrow> string \<Rightarrow> string \<Rightarrow> neo_node list" where
  "nodes_with_id g l x = filter (\<lambda>n. l \<in> set (labels n) \<and> getProp (properties n) ''id'' = PStr x) (nodes g)"

definition id_in :: "neo_node \<Rightarrow> string list \<Rightarrow> bool" where
  "id_in n xs = (getProp (properties n) ''id'' \<in> PStr ` set xs)"

definition node_is :: "graph \<Rightarrow> nat \<Rightarrow> string \<Rightarrow> string \<Rightarrow> bool" where
  "node_is g i l x = (case find_node g i of None \<Rightarrow> False
                        | Some n \<Rightarrow> l \<in> set (labels n) \<and> getProp (properties n) ''id'' = PStr x)"

text \<open>\<open>MATCH (n:Old) WHERE n.id IN xs SET n:New REMOVE n:Old\<close>\<close>

definition add_label :: "string list \<Rightarrow> string \<Rightarrow> string list" where
  "add_label ls l = (if l \<in> set ls then ls else ls @ [l])"

definition remove_label :: "string list \<Rightarrow> string \<Rightarrow> string list" where
  "remove_label ls l = filter (\<lambda>x. x \<noteq> l) ls"

definition swap_label :: "string \<Rightarrow> string \<Rightarrow> string list \<Rightarrow> graph \<Rightarrow> graph" where
  "swap_label old new xs g =
     g\<lparr> nodes := map (\<lambda>n. if old \<in> set (labels n) \<and> id_in n xs
                           then n\<lparr> labels := remove_label (add_label (labels n) new) old \<rparr>
                           else n)
                    (nodes g) \<rparr>"

text \<open>\<open>apoc.create.relationship(from, type, properties, to)\<close>, the new relationship taking an unused identity.\<close>

definition next_rel_id :: "graph \<Rightarrow> nat" where
  "next_rel_id g = Suc (fold max (map rel_identity (relationships g)) 0)"

definition create_relationship :: "nat \<times> string \<times> props \<times> nat \<Rightarrow> graph \<Rightarrow> graph" where
  "create_relationship row g =
     (case row of (s, ty, ps, t) \<Rightarrow>
        g\<lparr> relationships := relationships g
              @ [\<lparr> rel_identity = next_rel_id g, rel_type = ty, startNode = s, endNode = t,
                   rel_properties = filter (\<lambda>kv. snd kv \<noteq> PNull) ps \<rparr>] \<rparr>)"

text \<open>The rows of the query that restores deleted relationships: one for every match of both ends.\<close>

definition recreate_rows :: "graph \<Rightarrow> rel_change list \<Rightarrow> (nat \<times> string \<times> props \<times> nat) list" where
  "recreate_rows g drs =
     concat (map (\<lambda>dr.
       concat (map (\<lambda>f. map (\<lambda>t. (identity f, rc_type dr, rc_properties dr, identity t))
                            (nodes_with_id g ''VNode'' (rc_to dr)))
                 (nodes_with_id g ''VNode'' (rc_from dr)))) drs)"

text \<open>
  The rows of the query that reverts properties: one for every changed property of every
  matched node that passes the WHERE clause, each carrying the node, the property name and
  the old value for \<open>apoc.create.setProperty\<close>.
\<close>

definition still_new :: "pval \<Rightarrow> pval \<Rightarrow> bool" where
  "still_new current newValue =
     ((newValue = PNull \<and> current = PNull) \<or> (current \<noteq> PNull \<and> newValue \<noteq> PNull \<and> current = newValue))"

definition property_rows :: "graph \<Rightarrow> modified_node list \<Rightarrow> (nat \<times> string \<times> pval) list" where
  "property_rows g mns =
     concat (map (\<lambda>chg.
       concat (map (\<lambda>node.
                 map (\<lambda>e. (identity node, fst e, fst (snd e)))
                   (filter (\<lambda>e. still_new (getProp (properties node) (fst e)) (snd (snd e)))
                      (mn_properties chg)))
               (nodes_with_id g ''VNode'' (mn_id chg)))) mns)"

definition set_properties :: "(nat \<times> string \<times> pval) list \<Rightarrow> graph \<Rightarrow> graph" where
  "set_properties rows g = fold (\<lambda>row g'. set_node_property g' (fst row) (fst (snd row)) (snd (snd row))) rows g"

text \<open>
  Equality of two maps in Cypher (true only without null entries), and the equivalence by
  which \<open>WITH createdRelationship, head(collect(rel))\<close> groups its rows.
\<close>

definition same_map :: "props \<Rightarrow> props \<Rightarrow> bool" where
  "same_map a b = (set (map fst a) = set (map fst b) \<and> list_all (\<lambda>k. map_of a k = map_of b k) (map fst a))"

definition props_eq :: "props \<Rightarrow> props \<Rightarrow> bool" where
  "props_eq a b = (same_map a b \<and> PNull \<notin> snd ` set a)"

definition same_rel_change :: "rel_change \<Rightarrow> rel_change \<Rightarrow> bool" where
  "same_rel_change x y =
     (rc_type x = rc_type y \<and> rc_from x = rc_from y \<and> rc_to x = rc_to y
      \<and> same_map (rc_properties x) (rc_properties y))"

definition rel_matches :: "graph \<Rightarrow> rel_change \<Rightarrow> neo_rel list" where
  "rel_matches g cr =
     filter (\<lambda>r. node_is g (startNode r) ''VNode'' (rc_from cr) \<and> node_is g (endNode r) ''VNode'' (rc_to cr)
                \<and> rel_type r = rc_type cr \<and> props_eq (rel_properties r) (rc_properties cr))
       (relationships g)"

definition rel_groups :: "graph \<Rightarrow> rel_change list \<Rightarrow> rel_change list" where
  "rel_groups g crs =
     fold (\<lambda>cr acc. if list_ex (same_rel_change cr) acc then acc else acc @ [cr])
       (filter (\<lambda>cr. rel_matches g cr \<noteq> []) crs) []"

definition delete_relationships :: "nat list \<Rightarrow> graph \<Rightarrow> graph" where
  "delete_relationships ids g = g\<lparr> relationships := filter (\<lambda>r. rel_identity r \<notin> set ids) (relationships g) \<rparr>"

text \<open>
  The check of every created node that is still there. \<open>a ?? null !== b\<close> is
  \<open>a ?? (null !== b)\<close>: the current value when it is neither null nor undefined, and
  otherwise whether the created value is not null; the branch is taken when that is truthy.
\<close>

definition js_truthy :: "pval \<Rightarrow> bool" where
  "js_truthy v = (case v of PNull \<Rightarrow> False | PBool b \<Rightarrow> b | PInt i \<Rightarrow> i \<noteq> 0 | PStr s \<Rightarrow> s \<noteq> [])"

definition changed_condition :: "props \<Rightarrow> string \<Rightarrow> pval \<Rightarrow> bool" where
  "changed_condition currentProperties propName createdValue =
     (case map_of currentProperties propName of
        None \<Rightarrow> createdValue \<noteq> PNull
      | Some PNull \<Rightarrow> createdValue \<noteq> PNull
      | Some v \<Rightarrow> js_truthy v)"

fun check_created_entries :: "props \<Rightarrow> props \<Rightarrow> error option" where
  "check_created_entries currentProperties [] = None"
| "check_created_entries currentProperties ((propName, createdValue) # entries) =
     (if changed_condition currentProperties propName createdValue
      then Some (UndoConflictError (''One of the nodes created by that action has since been modified (property ''
                   @ propName @ '' changed); cannot undo.''))
      else check_created_entries currentProperties entries)"

definition check_created_row :: "created_node list \<Rightarrow> neo_node \<Rightarrow> error option" where
  "check_created_row cns n =
     (case find (\<lambda>cn. map_of (properties n) ''id'' = Some (PStr (cn_id cn))) cns of
        None \<Rightarrow> Some (Error ''Internal error, couldn't match current node to created node record.'')
      | Some cn \<Rightarrow>
          if length (properties n) > length (cn_properties cn)
          then Some (UndoConflictError
                 ''One of the nodes created by that action has since been modified (new property); cannot undo.'')
          else check_created_entries (properties n) (cn_properties cn))"

fun check_created_rows :: "created_node list \<Rightarrow> neo_node list \<Rightarrow> error option" where
  "check_created_rows cns [] = None"
| "check_created_rows cns (n # rows) =
     (case check_created_row cns n of Some e \<Rightarrow> Some e | None \<Rightarrow> check_created_rows cns rows)"

text \<open>The set of modified VNIDs, in insertion order.\<close>

definition collect_ids :: "string list \<Rightarrow> string list" where
  "collect_ids xs = fold (\<lambda>x acc. if x \<in> set acc then acc else acc @ [x]) xs []"

text \<open>The six steps of \<open>apply\<close>, each one Cypher query with the check that follows it.\<close>

definition restore_soft_deleted :: "ActionChangeSet \<Rightarrow> graph \<Rightarrow> graph" where
  "restore_soft_deleted changes g =
     (if length (cs_softDeletedNodes changes) > 0
      then swap_label ''DeletedVNode'' ''VNode'' (cs_softDeletedNodes changes) g
      else g)"

definition restore_relationships :: "ActionChangeSet \<Rightarrow> graph \<Rightarrow> error + graph" where
  "restore_relationships changes g =
     (if length (cs_deletedRelationships changes) > 0
      then let relsCreated = recreate_rows g (cs_deletedRelationships changes)
           in if length relsCreated \<noteq> length (cs_deletedRelationships changes)
              then Inl (UndoConflictError
                     ''One of the nodes relationships deleted by that action cannot be re-created; cannot undo.'')
              else Inr (fold create_relationship relsCreated g)
      else Inr g)"

definition revert_properties :: "ActionChangeSet \<Rightarrow> graph \<Rightarrow> error + graph" where
  "revert_properties changes g =
     (if length (cs_modifiedNodes changes) > 0
      then let nodesWithModifiedProperties = property_rows g (cs_modifiedNodes changes)
           in if length nodesWithModifiedProperties \<noteq> length (cs_modifiedNodes changes)
              then Inl (UndoConflictError
                     ''One of the node properties changed by that action has since been changed; cannot undo.'')
              else Inr (set_properties nodesWithModifiedProperties g)
      else Inr g)"

definition delete_created_relationships :: "ActionChangeSet \<Rightarrow> graph \<Rightarrow> error + graph" where
  "delete_created_relationships changes g =
     (if length (cs_createdRelationships changes) > 0
      then let relsDeleted = rel_groups g (cs_createdRelationships changes)
           in if length relsDeleted \<noteq> length (cs_createdRelationships changes)
              then Inl (UndoConflictError
                     ''One of the relationships created by that action cannot be deleted; cannot undo.'')
              else Inr (delete_relationships (map (\<lambda>cr. rel_identity (hd (rel_matches g cr))) relsDeleted) g)
      else Inr g)"

definition delete_created_nodes :: "ActionChangeSet \<Rightarrow> graph \<Rightarrow> error + graph" where
  "delete_created_nodes changes g =
     (if length (cs_createdNodes changes) > 0
      then let createdNodesNow =
                 filter (\<lambda>n. ''VNode'' \<in> set (labels n) \<and> id_in n (map cn_id (cs_createdNodes changes))) (nodes g)
           in if length createdNodesNow < length (cs_createdNodes changes)
              then Inl (UndoConflictError
                     ''One of the nodes created by that action has since been deleted; cannot undo.'')
              else (case check_created_rows (cs_createdNodes changes) createdNodesNow of
                      Some e \<Rightarrow> Inl e
                    | None \<Rightarrow> Inr (swap_label ''VNode'' ''DeletedVNode'' (map cn_id (cs_createdNodes changes)) g))
      else Inr g)"

definition redelete_nodes :: "ActionChangeSet \<Rightarrow> graph \<Rightarrow> graph" where
  "redelete_nodes changes g = swap_label ''VNode'' ''DeletedVNode'' (cs_unDeletedNodes changes) g"

definition undo_modifiedNodes :: "ActionChangeSet \<Rightarrow> string list" where
  "undo_modifiedNodes changes =
     collect_ids (map cn_id (cs_createdNodes changes)
                  @ map rc_from (cs_createdRelationships changes)
                  @ map rc_from (cs_deletedRelationships changes)
                  @ map mn_id (cs_modifiedNodes changes)
                  @ cs_softDeletedNodes changes
                  @ cs_unDeletedNodes changes)"

text \<open>The steps in their order, from the state after the soft-deleted nodes are restored.\<close>

definition undo_changes :: "ActionChangeSet \<Rightarrow> graph \<Rightarrow> error + (graph \<times> apply_result)" where
  "undo_changes changes g =
     (case restore_relationships changes (restore_soft_deleted changes g) of
        Inl e \<Rightarrow> Inl e
      | Inr g2 \<Rightarrow>
     (case revert_properties changes g2 of
        Inl e \<Rightarrow> Inl e
      | Inr g3 \<Rightarrow>
     (case delete_created_relationships changes g3 of
        Inl e \<Rightarrow> Inl e
      | Inr g4 \<Rightarrow>
     (case delete_created_nodes changes g4 of
        Inl e \<Rightarrow> Inl e
      | Inr g5 \<Rightarrow>
          Inr (redelete_nodes changes g5,
               \<lparr> resultData = [], modifiedNodes = undo_modifiedNodes changes \<rparr>)))))"

text \<open>
  \<open>UndoAction.apply\<close>. The two typed reads it starts with go through the read layer and
  through \<open>getActionChanges\<close>; both are parameters here, given the state and the VNID of
  the Action to undo.
\<close>

definition UndoAction_apply ::
  "(graph \<Rightarrow> string \<Rightarrow> error + prev_action) \<Rightarrow> (graph \<Rightarrow> string \<Rightarrow> error + ActionChangeSet)
   \<Rightarrow> graph \<Rightarrow> string \<Rightarrow> error + (graph \<times> apply_result)" where
  "UndoAction_apply pullOne getActionChanges g actionId =
     (case pullOne g actionId of
        Inl e \<Rightarrow> Inl e
      | Inr prevAction \<Rightarrow>
          if pa_revertedBy prevAction \<noteq> None
          then Inl (UndoConflictError ''That action was already undone.'')
          else (case getActionChanges g actionId of
                  Inl e \<Rightarrow> Inl e
                | Inr changes \<Rightarrow>
                    if cs_deletedNodesCount changes > 0
                    then Inl (UndoConflictError ''Cannot undo an Action that permanently deleted data.'')
                    else undo_changes changes g))"

section \<open>The action runner\<close>

text \<open>
  Modelled from the spec: \<open>runAction\<close> of action-runner.ts, which is not among the
  sources. Section 4.2: the runner opens one write transaction, creates the Action entity
  and links it from the actor, invokes \<open>apply\<close>, links and validates what \<open>apply\<close>
  declared, and commits; section 4.1: errors from \<open>apply\<close> propagate unmodified and cause
  the runner to abort the transaction. What the runner does before and after \<open>apply\<close> is
  left open as two parameters; the second may fail (validation) and yields the final state
  with its write set.
\<close>

definition runAction ::
  "bool \<Rightarrow> graph \<Rightarrow> (graph \<Rightarrow> graph) \<Rightarrow> (graph \<Rightarrow> error + (graph \<times> apply_result))
   \<Rightarrow> (graph \<Rightarrow> apply_result \<Rightarrow> error + (graph \<times> txdata)) \<Rightarrow> graph \<times> (error + apply_result)" where
  "runAction paused db createAction apply finish =
     restrictedWrite paused db (\<lambda>g.
       case apply (createAction g) of
         Inl e \<Rightarrow> Inl e
       | Inr (g', result) \<Rightarrow>
           (case finish g' result of
              Inl e \<Rightarrow> Inl e
            | Inr (g'', tx) \<Rightarrow> Inr (g'', tx, result)))"

section \<open>updateToOneRelationship (layer4/action-helpers.ts)\<close>

text \<open>
  The argument \<open>to\<close>: a key, null, or an object with a key (possibly null) and the
  properties of the relationship, which the destructuring \<open>{key, ...relationshipProps}\<close>
  takes apart.
\<close>

datatype to_spec = ToKey string | ToNull | ToSpec "string option" props

text \<open>
  The result \<open>prevTo\<close> is the object \<open>{key: id, ...relProps}\<close>: the properties of the
  relationship are written over an object that holds the key, so that a property named
  \<open>key\<close> replaces it. An object is the list of its entries; writing an entry replaces the
  value of a name that is there and appends a new name.
\<close>

fun js_set :: "props \<Rightarrow> string \<Rightarrow> pval \<Rightarrow> props" where
  "js_set [] k v = [(k, v)]"
| "js_set (kv # rest) k v = (if fst kv = k then (k, v) # rest else kv # js_set rest k v)"

definition js_spread :: "props \<Rightarrow> props \<Rightarrow> props" where
  "js_spread obj src = fold (\<lambda>kv acc. js_set acc (fst kv) (snd kv)) src obj"

text \<open>
  Two pieces of the Cypher template language are not among the sources and are parameters:
  which nodes the pattern \<open>(:${fromType} ...)\<close> matches, and which nodes
  \<open>target HAS KEY ${toKey}\<close> accepts.
\<close>

record cypher_sugar =
  matches_type :: "vnode_type \<Rightarrow> neo_node \<Rightarrow> bool"
  has_key :: "graph \<Rightarrow> neo_node \<Rightarrow> string \<Rightarrow> bool"

definition getRelationshipType :: "relationship_declaration \<Rightarrow> error + string" where
  "getRelationshipType rel =
     (case rd_relType rel of
        None \<Rightarrow> Inl (Error ''A VNodeType's relationships were not declared using this.hasRelationshipsFromThisTo({...})'')
      | Some t \<Rightarrow> Inr t)"

definition split_to :: "to_spec \<Rightarrow> string option \<times> props" where
  "split_to to = (case to of ToKey k \<Rightarrow> (Some k, []) | ToNull \<Rightarrow> (None, []) | ToSpec k ps \<Rightarrow> (k, ps))"

text \<open>\<open>MATCH (self:${fromType} {id: ${fromId}})\<close>\<close>

definition from_nodes :: "cypher_sugar \<Rightarrow> graph \<Rightarrow> vnode_type \<Rightarrow> string \<Rightarrow> neo_node list" where
  "from_nodes cs g fromType fromId =
     filter (\<lambda>n. matches_type cs fromType n \<and> getProp (properties n) ''id'' = PStr fromId) (nodes g)"

text \<open>\<open>(self)-[rel:${rel}]->(target:VNode)\<close> for a given start node.\<close>

definition rels_to_vnodes :: "graph \<Rightarrow> string \<Rightarrow> nat \<Rightarrow> neo_rel list" where
  "rels_to_vnodes g relType s =
     filter (\<lambda>r. rel_type r = relType \<and> startNode r = s \<and> is_labelled g (endNode r) ''VNode'')
       (relationships g)"

text \<open>\<open>MATCH (target:VNode), target HAS KEY ${toKey} WHERE target:L1 OR target:L2 ...\<close>\<close>

definition target_nodes :: "cypher_sugar \<Rightarrow> graph \<Rightarrow> string \<Rightarrow> string list \<Rightarrow> neo_node list" where
  "target_nodes cs g toKey targetLabels =
     filter (\<lambda>n. ''VNode'' \<in> set (labels n) \<and> has_key cs g n toKey
                \<and> list_ex (\<lambda>l. l \<in> set (labels n)) targetLabels)
       (nodes g)"

definition rels_between :: "graph \<Rightarrow> string \<Rightarrow> nat \<Rightarrow> nat \<Rightarrow> neo_rel list" where
  "rels_between g relType s t =
     filter (\<lambda>r. rel_type r = relType \<and> startNode r = s \<and> endNode r = t) (relationships g)"

text \<open>
  \<open>MERGE (self)-[rel:${rel}]->(target)\<close> for one row: every relationship of the type
  between the two nodes gives a row, and when there is none a new one is created.
\<close>

definition merge_row :: "string \<Rightarrow> nat \<times> nat \<Rightarrow> graph \<times> (nat \<times> nat \<times> nat) list \<Rightarrow> graph \<times> (nat \<times> nat \<times> nat) list" where
  "merge_row relType st acc =
     (case st of (s, t) \<Rightarrow> case acc of (g, rows) \<Rightarrow>
        let existing = rels_between g relType s t
        in if existing = []
           then (create_relationship (s, relType, [], t) g, rows @ [(s, t, next_rel_id g)])
           else (g, rows @ map (\<lambda>r. (s, t, rel_identity r)) existing))"

text \<open>\<open>SET rel = ${relationshipProps}\<close>: the properties are replaced, null entries dropped.\<close>

definition set_rel_properties :: "props \<Rightarrow> nat list \<Rightarrow> graph \<Rightarrow> graph" where
  "set_rel_properties ps ids g =
     g\<lparr> relationships :=
          map (\<lambda>r. if rel_identity r \<in> set ids
                    then r\<lparr> rel_properties := filter (\<lambda>kv. snd kv \<noteq> PNull) ps \<rparr> else r)
            (relationships g) \<rparr>"

text \<open>
  \<open>OPTIONAL MATCH (self)-[oldRel:${rel}]->(oldTarget:VNode) WHERE oldRel <> rel\<close> for one
  row: the relationships to delete.
\<close>

definition old_rels :: "graph \<Rightarrow> string \<Rightarrow> nat \<times> nat \<times> nat \<Rightarrow> neo_rel list" where
  "old_rels g relType row =
     (case row of (s, t, rid) \<Rightarrow> filter (\<lambda>r. rel_identity r \<noteq> rid) (rels_to_vnodes g relType s))"

definition old_targets :: "graph \<Rightarrow> string \<Rightarrow> nat \<Rightarrow> (pval \<times> props) list" where
  "old_targets g relType s =
     map (\<lambda>r. (vnid_of g (endNode r), rel_properties r)) (rels_to_vnodes g relType s)"

text \<open>\<open>rows.length ? {key: rows[0].id, ...rows[0].properties} : {key: null}\<close>\<close>

definition prevTo_of :: "(pval \<times> props) list \<Rightarrow> props" where
  "prevTo_of rows = (case rows of [] \<Rightarrow> [(''key'', PNull)]
                      | row # _ \<Rightarrow> js_spread [(''key'', fst row)] (snd row))"

text \<open>The query that clears the relationship, and what it returns.\<close>

definition clear_relationship ::
  "cypher_sugar \<Rightarrow> graph \<Rightarrow> vnode_type \<Rightarrow> string \<Rightarrow> string \<Rightarrow> graph \<times> (pval \<times> props) list" where
  "clear_relationship cs g fromType fromId relType =
     (let rels = concat (map (\<lambda>s. rels_to_vnodes g relType (identity s)) (from_nodes cs g fromType fromId))
      in (delete_relationships (map rel_identity rels) g,
          map (\<lambda>r. (vnid_of g (endNode r), rel_properties r)) rels))"

text \<open>
  The query that points the relationship at the target. Its result has one row for every
  row after the second OPTIONAL MATCH, each carrying the \<open>oldTargets\<close> collected for its
  start node before the MERGE.
\<close>

definition merge_relationship ::
  "cypher_sugar \<Rightarrow> graph \<Rightarrow> vnode_type \<Rightarrow> string \<Rightarrow> string \<Rightarrow> string list \<Rightarrow> string \<Rightarrow> props
   \<Rightarrow> graph \<times> (pval \<times> props) list list" where
  "merge_relationship cs g fromType fromId relType targetLabels toKey relationshipProps =
     (let pairs = concat (map (\<lambda>s. map (\<lambda>t. (identity s, identity t)) (target_nodes cs g toKey targetLabels))
                            (from_nodes cs g fromType fromId));
          merged = fold (merge_row relType) pairs (g, []);
          g1 = set_rel_properties relationshipProps (map (\<lambda>row. snd (snd row)) (snd merged)) (fst merged);
          olds = map (old_rels g1 relType) (snd merged)
      in (delete_relationships (map rel_identity (concat olds)) g1,
          concat (map (\<lambda>(row, old). replicate (max 1 (length old)) (old_targets g relType (fst row)))
                    (zip (snd merged) olds))))"

text \<open>
  The call. \<open>fromType.rel[relType] !== rel\<close> compares two objects, which are the same when
  their references are.
\<close>

definition updateToOneRelationship ::
  "cypher_sugar \<Rightarrow> graph \<Rightarrow> vnode_type \<Rightarrow> string \<Rightarrow> relationship_declaration \<Rightarrow> to_spec
   \<Rightarrow> error + (graph \<times> props)" where
  "updateToOneRelationship cs g fromType fromId rel to =
     (case getRelationshipType rel of
        Inl e \<Rightarrow> Inl e
      | Inr relType \<Rightarrow>
          if (case map_of (vnt_rel fromType) relType of None \<Rightarrow> True | Some d \<Rightarrow> rd_ref d \<noteq> rd_ref rel)
          then Inl (Error (''Mismatch between relationship '' @ relType @ '' and VNodeType '' @ vnt_label fromType
                     @ '' which doesn't declare that exact relationship.''))
          else (case fst (split_to to) of
                  None \<Rightarrow>
                    (let res = clear_relationship cs g fromType fromId relType
                     in Inr (fst res, prevTo_of (snd res)))
                | Some toKey \<Rightarrow>
                    (let res = merge_relationship cs g fromType fromId relType (rd_to rel) toKey (snd (split_to to))
                     in if snd res = []
                        then Inl (Error (''Cannot change '' @ vnt_name fromType @ '' relationship '' @ relType
                                   @ '' to '' @ [CHR 0x22] @ toKey @ [CHR 0x22] @ '' - target not found.''))
                        else Inr (fst res, prevTo_of (hd (snd res))))))"

section \<open>Test data\<close>

text \<open>The MovieFranchise VNode type of the test project (label, declared properties).\<close>

definition MovieFranchise :: vnode_type where
  "MovieFranchise = \<lparr> vnt_name = ''MovieFranchise'', vnt_label = ''TestMovieFranchise'',
     vnt_properties = [(''id'', FieldVNID), (''slugId'', FieldSlug), (''name'', FieldString)],
     vnt_rel = [] \<rparr>"

text \<open>
  A VNode type that declares, besides \<open>id\<close> and \<open>name\<close>, a property under each name that
  the conversion does not treat as a plain property, and a live node of that type with an
  \<open>id\<close> only.
\<close>

definition OddType :: vnode_type where
  "OddType = \<lparr> vnt_name = ''OddType'', vnt_label = ''TestOdd'',
     vnt_properties = [(''id'', FieldVNID), (''name'', FieldString), (''constructor'', FieldString),
       (''__defineGetter__'', FieldString), (''__defineSetter__'', FieldString),
       (''hasOwnProperty'', FieldString), (''__lookupGetter__'', FieldString),
       (''__lookupSetter__'', FieldString), (''isPrototypeOf'', FieldString),
       (''propertyIsEnumerable'', FieldString), (''toString'', FieldString), (''valueOf'', FieldString),
       (''__proto__'', FieldString), (''toLocaleString'', FieldString),
       (''_identity'', FieldString), (''_labels'', FieldString)],
     vnt_rel = [] \<rparr>"

definition odd_node :: neo_node where
  "odd_node = \<lparr> identity = 9, labels = [''TestOdd'', ''VNode''], properties = [(''id'', PStr ''_odd'')] \<rparr>"

definition empty_tx :: txdata where
  "empty_tx = \<lparr> tx_createdNodes = [], tx_deletedNodes = [], tx_assignedLabels = [], tx_removedLabels = [],
      tx_assignedNodeProperties = [], tx_removedNodeProperties = [],
      tx_createdRelationships = [], tx_deletedRelationships = [],
      tx_assignedRelationshipProperties = [], tx_removedRelationshipProperties = [] \<rparr>"

definition system_user :: neo_node where
  "system_user = \<lparr> identity = 0, labels = [''User'', ''VNode''],
      properties = [(''id'', PStr ''_0''), (''slugId'', PStr ''user-system''), (''fullName'', PStr ''System'')] \<rparr>"

definition action_node :: "nat \<Rightarrow> string \<Rightarrow> string \<Rightarrow> neo_node" where
  "action_node i vnid ty = \<lparr> identity = i, labels = [''Action'', ''VNode''],
      properties = [(''id'', PStr vnid), (''type'', PStr ty)] \<rparr>"

definition performed :: "nat \<Rightarrow> nat \<Rightarrow> nat \<Rightarrow> neo_rel" where
  "performed i u a = \<lparr> rel_identity = i, rel_type = ''PERFORMED'', startNode = u, endNode = a, rel_properties = [] \<rparr>"

definition modified :: "nat \<Rightarrow> nat \<Rightarrow> nat \<Rightarrow> neo_rel" where
  "modified i a n = \<lparr> rel_identity = i, rel_type = ''MODIFIED'', startNode = a, endNode = n, rel_properties = [] \<rparr>"

text \<open>A database holding the system user only.\<close>

definition db0 :: graph where
  "db0 = \<lparr> nodes = [system_user], relationships = [] \<rparr>"

text \<open>A transaction that changed the user's name without creating an Action.\<close>

definition g_noaction :: graph where
  "g_noaction = \<lparr> nodes = [system_user\<lparr> properties := [(''id'', PStr ''_0''), (''slugId'', PStr ''user-system''), (''fullName'', PStr ''Root'')] \<rparr>],
                   relationships = [] \<rparr>"

definition tx_noaction :: txdata where
  "tx_noaction = empty_tx\<lparr> tx_assignedNodeProperties :=
      [(''fullName'', [\<lparr> npc_key = ''fullName'', npc_old = PStr ''System'', npc_new = PStr ''Root'', npc_node = 0 \<rparr>])] \<rparr>"

text \<open>A transaction that created two Actions, and one that created one.\<close>

definition g_twoactions :: graph where
  "g_twoactions = \<lparr> nodes = [system_user, action_node 1 ''_a1'' ''CreateUser'', action_node 2 ''_a2'' ''CreateUser''],
                     relationships = [performed 0 0 1, performed 1 0 2] \<rparr>"

definition tx_twoactions :: txdata where
  "tx_twoactions = empty_tx\<lparr> tx_createdNodes := [1, 2],
      tx_createdRelationships := [performed 0 0 1, performed 1 0 2] \<rparr>"

definition g_oneaction :: graph where
  "g_oneaction = \<lparr> nodes = [system_user, action_node 1 ''_a1'' ''CreateUser''],
                    relationships = [performed 0 0 1] \<rparr>"

definition tx_oneaction :: txdata where
  "tx_oneaction = empty_tx\<lparr> tx_createdNodes := [1], tx_createdRelationships := [performed 0 0 1] \<rparr>"

definition franchise_node :: "nat \<Rightarrow> string list \<Rightarrow> neo_node" where
  "franchise_node i ls = \<lparr> identity = i, labels = ls,
      properties = [(''id'', PStr ''_mcu''), (''slugId'', PStr ''mcu''), (''name'', PStr ''Marvel Cinematic Universe'')] \<rparr>"

definition movie_node :: "nat \<Rightarrow> string list \<Rightarrow> neo_node" where
  "movie_node i ls = \<lparr> identity = i, labels = ls,
      properties = [(''id'', PStr ''_gotg''), (''slugId'', PStr ''guardians-galaxy''),
                    (''title'', PStr ''Guardians of the Galaxy''), (''year'', PInt 2014)] \<rparr>"

definition franchise_is :: "nat \<Rightarrow> nat \<Rightarrow> nat \<Rightarrow> props \<Rightarrow> neo_rel" where
  "franchise_is i m f ps = \<lparr> rel_identity = i, rel_type = ''FRANCHISE_IS'', startNode = m, endNode = f,
      rel_properties = ps \<rparr>"

text \<open>A transaction that creates a franchise which its Action did not mark as modified.\<close>

definition g_undeclared :: graph where
  "g_undeclared = \<lparr> nodes = [system_user, action_node 1 ''_a1'' ''CreateMovieFranchise'',
                              franchise_node 2 [''TestMovieFranchise'', ''VNode'']],
                     relationships = [performed 0 0 1] \<rparr>"

definition tx_undeclared :: txdata where
  "tx_undeclared = empty_tx\<lparr> tx_createdNodes := [1, 2], tx_createdRelationships := [performed 0 0 1] \<rparr>"

text \<open>
  A database with a movie linked to a franchise, and a transaction that creates an Action
  and overwrites a property of that relationship in place; the movie is live in the first
  pair of states and soft-deleted in the second.
\<close>

definition db_linked :: "string \<Rightarrow> graph" where
  "db_linked l = \<lparr> nodes = [system_user, movie_node 2 [''TestMovie'', l],
                             franchise_node 3 [''TestMovieFranchise'', ''VNode'']],
                    relationships = [franchise_is 7 2 3 [(''weight'', PInt 1)]] \<rparr>"

definition g_relprop :: "string \<Rightarrow> graph" where
  "g_relprop l = \<lparr> nodes = [system_user, action_node 1 ''_a1'' ''GenericCypherAction'',
                             movie_node 2 [''TestMovie'', l],
                             franchise_node 3 [''TestMovieFranchise'', ''VNode'']],
                    relationships = [franchise_is 7 2 3 [(''weight'', PInt 2)], performed 8 0 1] \<rparr>"

definition weight_change :: rel_prop_change where
  "weight_change = \<lparr> rpc_key = ''weight'', rpc_old = PInt 1, rpc_new = PInt 2,
                      rpc_relationship = franchise_is 7 2 3 [(''weight'', PInt 2)] \<rparr>"

definition tx_relprop :: txdata where
  "tx_relprop = empty_tx\<lparr> tx_createdNodes := [1], tx_createdRelationships := [performed 8 0 1],
      tx_assignedRelationshipProperties := [(''weight'', [weight_change])] \<rparr>"

text \<open>
  A database with a soft-deleted movie and a live franchise, and a transaction that creates
  an Action, creates a SlugId node identifying the franchise, changes the title of the
  soft-deleted movie and creates a relationship from that movie to the franchise. The Action
  marked no node as modified.
\<close>

definition slugid_node :: "nat \<Rightarrow> string list \<Rightarrow> neo_node" where
  "slugid_node i ls = \<lparr> identity = i, labels = ls, properties = [(''slugId'', PStr ''mcu-old'')] \<rparr>"

definition identifies :: "nat \<Rightarrow> nat \<Rightarrow> nat \<Rightarrow> neo_rel" where
  "identifies i s n = \<lparr> rel_identity = i, rel_type = ''IDENTIFIES'', startNode = s, endNode = n, rel_properties = [] \<rparr>"

definition action_created :: "nat \<Rightarrow> string \<Rightarrow> string \<Rightarrow> (string \<times> node_prop_change list) list" where
  "action_created i vnid ty =
     [(''id'', [\<lparr> npc_key = ''id'', npc_old = PNull, npc_new = PStr vnid, npc_node = i \<rparr>]),
      (''type'', [\<lparr> npc_key = ''type'', npc_old = PNull, npc_new = PStr ty, npc_node = i \<rparr>])]"

definition db_softdeleted :: graph where
  "db_softdeleted = \<lparr> nodes = [system_user, movie_node 2 [''TestMovie'', ''DeletedVNode''],
                                franchise_node 3 [''TestMovieFranchise'', ''VNode'']],
                       relationships = [] \<rparr>"

definition retitled_movie :: neo_node where
  "retitled_movie = \<lparr> identity = 2, labels = [''TestMovie'', ''DeletedVNode''],
      properties = [(''id'', PStr ''_gotg''), (''slugId'', PStr ''guardians-galaxy''),
                    (''title'', PStr ''Guardians''), (''year'', PInt 2014)] \<rparr>"

definition title_change :: node_prop_change where
  "title_change = \<lparr> npc_key = ''title'', npc_old = PStr ''Guardians of the Galaxy'',
                     npc_new = PStr ''Guardians'', npc_node = 2 \<rparr>"

definition g_softdeleted :: graph where
  "g_softdeleted = \<lparr> nodes = [system_user, action_node 1 ''_a1'' ''GenericCypherAction'', retitled_movie,
                               franchise_node 3 [''TestMovieFranchise'', ''VNode''], slugid_node 5 [''SlugId'']],
                      relationships = [performed 8 0 1, identifies 9 5 3, franchise_is 10 2 3 []] \<rparr>"

definition tx_softdeleted :: txdata where
  "tx_softdeleted = empty_tx\<lparr> tx_createdNodes := [1, 5],
      tx_assignedLabels := [(''Action'', [1]), (''VNode'', [1]), (''SlugId'', [5])],
      tx_assignedNodeProperties := action_created 1 ''_a1'' ''GenericCypherAction''
        @ [(''slugId'', [\<lparr> npc_key = ''slugId'', npc_old = PNull, npc_new = PStr ''mcu-old'', npc_node = 5 \<rparr>]),
           (''title'', [title_change])],
      tx_createdRelationships := [performed 8 0 1, identifies 9 5 3, franchise_is 10 2 3 []] \<rparr>"

text \<open>
  A transaction on the database with the movie linked to the franchise that creates an
  Action and deletes the franchise permanently, with the relationship from the movie. The
  Action marked no node as modified.
\<close>

definition g_purged :: graph where
  "g_purged = \<lparr> nodes = [system_user, action_node 1 ''_a1'' ''GenericCypherAction'',
                          movie_node 2 [''TestMovie'', ''VNode'']],
                 relationships = [performed 8 0 1] \<rparr>"

definition tx_purged :: txdata where
  "tx_purged = empty_tx\<lparr> tx_createdNodes := [1], tx_deletedNodes := [3],
      tx_assignedLabels := [(''Action'', [1]), (''VNode'', [1])],
      tx_removedLabels := [(''TestMovieFranchise'', [3]), (''VNode'', [3])],
      tx_assignedNodeProperties := action_created 1 ''_a1'' ''GenericCypherAction'',
      tx_removedNodeProperties :=
        [(''id'', [\<lparr> npc_key = ''id'', npc_old = PStr ''_mcu'', npc_new = PNull, npc_node = 3 \<rparr>]),
         (''slugId'', [\<lparr> npc_key = ''slugId'', npc_old = PStr ''mcu'', npc_new = PNull, npc_node = 3 \<rparr>]),
         (''name'', [\<lparr> npc_key = ''name'', npc_old = PStr ''Marvel Cinematic Universe'', npc_new = PNull,
                        npc_node = 3 \<rparr>])],
      tx_createdRelationships := [performed 8 0 1],
      tx_deletedRelationships := [franchise_is 7 2 3 []],
      tx_removedRelationshipProperties :=
        [(''weight'', [\<lparr> rpc_key = ''weight'', rpc_old = PInt 1, rpc_new = PNull,
                          rpc_relationship = franchise_is 7 2 3 [] \<rparr>])] \<rparr>"

text \<open>
  A database with a SlugId node identifying a franchise, and a transaction that creates an
  Action, replaces the label of the SlugId node and deletes its relationship. The Action
  marked no node as modified.
\<close>

definition db_slug :: graph where
  "db_slug = \<lparr> nodes = [system_user, franchise_node 3 [''TestMovieFranchise'', ''VNode''],
                         slugid_node 5 [''SlugId'']],
                relationships = [identifies 9 5 3] \<rparr>"

definition g_slug :: graph where
  "g_slug = \<lparr> nodes = [system_user, action_node 1 ''_a1'' ''GenericCypherAction'',
                        franchise_node 3 [''TestMovieFranchise'', ''VNode''], slugid_node 5 [''Retired'']],
               relationships = [performed 8 0 1] \<rparr>"

definition tx_slug :: txdata where
  "tx_slug = empty_tx\<lparr> tx_createdNodes := [1],
      tx_assignedLabels := [(''Action'', [1]), (''VNode'', [1]), (''Retired'', [5])],
      tx_removedLabels := [(''SlugId'', [5])],
      tx_assignedNodeProperties := action_created 1 ''_a1'' ''GenericCypherAction'',
      tx_createdRelationships := [performed 8 0 1],
      tx_deletedRelationships := [identifies 9 5 3] \<rparr>"

text \<open>
  The scenario of the UndoAction tests: Action \<open>_a1\<close> created the franchise, Action
  \<open>_a2\<close> created the movie and linked it to the franchise, and (in the second state)
  Action \<open>_a3\<close> has removed that link again.
\<close>

definition db_movies :: "neo_rel list \<Rightarrow> graph" where
  "db_movies links =
     \<lparr> nodes = [system_user,
                 action_node 1 ''_a1'' ''CreateMovieFranchise'',
                 franchise_node 2 [''TestMovieFranchise'', ''VNode''],
                 action_node 3 ''_a2'' ''CreateMovie'',
                 movie_node 4 [''TestMovie'', ''VNode'']],
       relationships = [performed 10 0 1, modified 11 1 2, performed 12 0 3, modified 13 3 4] @ links \<rparr>"

definition db_after1 :: graph where
  "db_after1 =
     \<lparr> nodes = [system_user,
                 action_node 1 ''_a1'' ''CreateMovieFranchise'',
                 franchise_node 2 [''TestMovieFranchise'', ''VNode'']],
       relationships = [performed 10 0 1, modified 11 1 2] \<rparr>"

definition db_after2 :: graph where
  "db_after2 = db_movies [franchise_is 14 4 2 []]"

definition db_after3 :: graph where
  "db_after3 = db_movies []"

text \<open>The Action node of an UndoAction, as the runner creates it before \<open>apply\<close>.\<close>

definition create_undo :: "graph \<Rightarrow> graph" where
  "create_undo g = g\<lparr> nodes := nodes g @ [action_node 20 ''_u1'' ''UndoAction''],
                      relationships := relationships g @ [performed 21 0 20] \<rparr>"

definition no_changes :: ActionChangeSet where
  "no_changes = \<lparr> cs_createdNodes = [], cs_modifiedNodes = [], cs_createdRelationships = [],
      cs_deletedRelationships = [], cs_softDeletedNodes = [], cs_unDeletedNodes = [],
      cs_deletedNodesCount = 0 \<rparr>"

text \<open>What the two Actions of the scenario changed.\<close>

definition changes_a1 :: ActionChangeSet where
  "changes_a1 = no_changes\<lparr> cs_createdNodes :=
      [\<lparr> cn_id = ''_mcu'',
         cn_properties = [(''id'', PStr ''_mcu''), (''slugId'', PStr ''mcu''),
                          (''name'', PStr ''Marvel Cinematic Universe'')] \<rparr>] \<rparr>"

definition changes_a2 :: ActionChangeSet where
  "changes_a2 = no_changes\<lparr>
      cs_createdNodes :=
        [\<lparr> cn_id = ''_gotg'',
           cn_properties = [(''id'', PStr ''_gotg''), (''slugId'', PStr ''guardians-galaxy''),
                            (''title'', PStr ''Guardians of the Galaxy''), (''year'', PInt 2014)] \<rparr>],
      cs_createdRelationships :=
        [\<lparr> rc_type = ''FRANCHISE_IS'', rc_from = ''_gotg'', rc_to = ''_mcu'', rc_properties = [] \<rparr>] \<rparr>"

definition not_reverted :: "graph \<Rightarrow> string \<Rightarrow> error + prev_action" where
  "not_reverted g key = Inr \<lparr> pa_deletedNodesCount = 0, pa_revertedBy = None \<rparr>"

definition reverted_by_u0 :: "graph \<Rightarrow> string \<Rightarrow> error + prev_action" where
  "reverted_by_u0 g key = Inr \<lparr> pa_deletedNodesCount = 0, pa_revertedBy = Some ''_u0'' \<rparr>"

definition changes_of :: "ActionChangeSet \<Rightarrow> graph \<Rightarrow> string \<Rightarrow> error + ActionChangeSet" where
  "changes_of cs g key = Inr cs"

text \<open>
  An update of two properties of the movie by one Action (title and year), followed by a
  later change of the year alone: the state now, and what the update recorded.
\<close>

definition movie_now :: "string \<Rightarrow> int \<Rightarrow> neo_node" where
  "movie_now t y = \<lparr> identity = 4, labels = [''TestMovie'', ''VNode''],
      properties = [(''id'', PStr ''_gotg''), (''slugId'', PStr ''guardians-galaxy''),
                    (''title'', PStr t), (''year'', PInt y)] \<rparr>"

definition db_updated :: "string \<Rightarrow> int \<Rightarrow> graph" where
  "db_updated t y = \<lparr> nodes = [system_user, movie_now t y], relationships = [] \<rparr>"

definition changes_update :: ActionChangeSet where
  "changes_update = no_changes\<lparr> cs_modifiedNodes :=
      [\<lparr> mn_id = ''_gotg'',
         mn_properties = [(''title'', PStr ''Guardians'', PStr ''Guardians of the Galaxy''),
                          (''year'', PInt 2013, PInt 2014)] \<rparr>] \<rparr>"

text \<open>An Action that deleted a node for good.\<close>

definition changes_gdpr :: ActionChangeSet where
  "changes_gdpr = no_changes\<lparr> cs_deletedNodesCount := 1 \<rparr>"

definition no_finish :: "graph \<Rightarrow> apply_result \<Rightarrow> error + (graph \<times> txdata)" where
  "no_finish g res = Inr (g, empty_tx)"

text \<open>
  The Movie type of the test project with its relationship to a franchise, and a reading of
  the two template forms: a type matches the nodes that carry its label and VNode, a key
  is a VNID or a slugId.
\<close>

definition FRANCHISE_IS :: relationship_declaration where
  "FRANCHISE_IS = \<lparr> rd_ref = 1, rd_to = [''TestMovieFranchise''], rd_relType = Some ''FRANCHISE_IS'' \<rparr>"

definition Movie :: vnode_type where
  "Movie = \<lparr> vnt_name = ''Movie'', vnt_label = ''TestMovie'',
     vnt_properties = [(''id'', FieldVNID), (''slugId'', FieldSlug), (''title'', FieldString), (''year'', FieldInt)],
     vnt_rel = [(''FRANCHISE_IS'', FRANCHISE_IS)] \<rparr>"

definition sugar :: cypher_sugar where
  "sugar = \<lparr> matches_type = (\<lambda>t n. vnt_label t \<in> set (labels n) \<and> ''VNode'' \<in> set (labels n)),
             has_key = (\<lambda>g n k. getProp (properties n) ''id'' = PStr k \<or> getProp (properties n) ''slugId'' = PStr k) \<rparr>"

text \<open>The movie linked to a franchise that is live, or soft-deleted.\<close>

definition db_link :: "string \<Rightarrow> graph" where
  "db_link l = \<lparr> nodes = [system_user, franchise_node 2 [''TestMovieFranchise'', l],
                           movie_node 4 [''TestMovie'', ''VNode'']],
                  relationships = [franchise_is 14 4 2 []] \<rparr>"

definition db_unlinked :: graph where
  "db_unlinked = \<lparr> nodes = [system_user, franchise_node 2 [''TestMovieFranchise'', ''VNode''],
                            movie_node 4 [''TestMovie'', ''VNode'']],
                   relationships = [] \<rparr>"

text \<open>The movie and the live franchise with the given relationships between them.\<close>

definition db_links :: "neo_rel list \<Rightarrow> graph" where
  "db_links rs = \<lparr> nodes = [system_user, franchise_node 2 [''TestMovieFranchise'', ''VNode''],
                            movie_node 4 [''TestMovie'', ''VNode'']],
                   relationships = rs \<rparr>"

section \<open>Properties of neoNodeToRawVNode\<close>

lemma js_assign_other: "k \<noteq> p \<Longrightarrow> js_assign obj k v p = obj p"
  by (simp add: js_assign_def)

lemma js_assign_same: "p \<noteq> ''__proto__'' \<Longrightarrow> js_assign obj p v p = Some v"
  by (simp add: js_assign_def)

lemma clean_properties_undeclared:
  "p \<notin> fst ` set decl \<Longrightarrow> clean_properties decl ps obj p = obj p"
  by (induction decl ps obj rule: clean_properties.induct) (auto simp: js_assign_other)

lemma clean_properties_declared:
  "p \<in> fst ` set decl \<Longrightarrow> p \<noteq> ''__proto__'' \<Longrightarrow>
   clean_properties decl ps obj p = Some (if js_in p ps then js_get ps p else JProp PNull)"
proof (induction decl ps obj rule: clean_properties.induct)
  case (1 ps obj)
  then show ?case by simp
next
  case (2 propName propSchema rest ps obj)
  show ?case
  proof (cases "p \<in> fst ` set rest")
    case True
    then show ?thesis using 2 by simp
  next
    case False
    then have "p = propName" using "2.prems" by auto
    then show ?thesis
      using False "2.prems"(2) by (simp add: clean_properties_undeclared js_assign_same)
  qed
qed

lemma clean_properties_absent:
  assumes "p \<in> fst ` set decl" "p \<notin> fst ` set ps" "p \<notin> set object_prototype"
  shows "clean_properties decl ps obj p = Some (JProp PNull)"
proof -
  have "p \<noteq> ''__proto__''"
    using assms(3) by (auto simp: object_prototype_def)
  moreover have "\<not> js_in p ps"
    using assms(2,3) by (simp add: js_in_def)
  ultimately show ?thesis
    using assms(1) by (simp add: clean_properties_declared)
qed

text \<open>
  C10, as amended. A node that carries the DeletedVNode label, or that lacks the VNode
  label, makes neoNodeToRawVNode throw; and whenever it returns, the value was a node with
  the VNode label and without the DeletedVNode label, the object has the identity and the
  labels of the node under \<open>_identity\<close> and \<open>_labels\<close>, and every declared property that is
  absent on the node is present with the value null, provided its name is neither
  \<open>_identity\<close> nor \<open>_labels\<close> nor the name of a member of \<open>Object.prototype\<close>.
\<close>

theorem neoNodeToRawVNode_deleted_throws_absent_null:
  "(''DeletedVNode'' \<in> set (labels n) \<or> ''VNode'' \<notin> set (labels n)
      \<longrightarrow> (\<exists>e. neoNodeToRawVNode (Node n) vnt fieldName = Inl e))
   \<and> (neoNodeToRawVNode v vnt fieldName = Inr r
      \<longrightarrow> (\<exists>m. v = Node m \<and> ''VNode'' \<in> set (labels m) \<and> ''DeletedVNode'' \<notin> set (labels m)
            \<and> r ''_identity'' = Some (JNumber (identity m)) \<and> r ''_labels'' = Some (JStrings (labels m))
            \<and> (\<forall>p \<in> fst ` set (vnt_properties vnt).
                  p \<notin> fst ` set (properties m) \<longrightarrow> p \<notin> set object_prototype
                  \<longrightarrow> p \<noteq> ''_identity'' \<longrightarrow> p \<noteq> ''_labels''
                  \<longrightarrow> r p = Some (JProp PNull))))"
proof (intro conjI impI)
  assume "''DeletedVNode'' \<in> set (labels n) \<or> ''VNode'' \<notin> set (labels n)"
  then show "\<exists>e. neoNodeToRawVNode (Node n) vnt fieldName = Inl e"
    by (auto simp: neoNodeToRawVNode_def)
next
  assume ok: "neoNodeToRawVNode v vnt fieldName = Inr r"
  then obtain m where v: "v = Node m"
    by (cases v) (auto simp: neoNodeToRawVNode_def split: pval.splits)
  from ok v have lab: "''VNode'' \<in> set (labels m)" "''DeletedVNode'' \<notin> set (labels m)"
    and r: "r = (clean_properties (vnt_properties vnt) (properties m) Map.empty)
                  (''_identity'' \<mapsto> JNumber (identity m), ''_labels'' \<mapsto> JStrings (labels m))"
    by (auto simp: neoNodeToRawVNode_def split: if_splits)
  have "r p = Some (JProp PNull)"
    if "p \<in> fst ` set (vnt_properties vnt)" "p \<notin> fst ` set (properties m)" "p \<notin> set object_prototype"
      "p \<noteq> ''_identity''" "p \<noteq> ''_labels''" for p
    using that by (simp add: r clean_properties_absent)
  moreover have "r ''_identity'' = Some (JNumber (identity m))" "r ''_labels'' = Some (JStrings (labels m))"
    by (simp_all add: r)
  ultimately show "\<exists>m. v = Node m \<and> ''VNode'' \<in> set (labels m) \<and> ''DeletedVNode'' \<notin> set (labels m)
            \<and> r ''_identity'' = Some (JNumber (identity m)) \<and> r ''_labels'' = Some (JStrings (labels m))
            \<and> (\<forall>p \<in> fst ` set (vnt_properties vnt).
                  p \<notin> fst ` set (properties m) \<longrightarrow> p \<notin> set object_prototype
                  \<longrightarrow> p \<noteq> ''_identity'' \<longrightarrow> p \<noteq> ''_labels''
                  \<longrightarrow> r p = Some (JProp PNull))"
    using v lab by simp
qed

lemma odd_result:
  "neoNodeToRawVNode (Node odd_node) OddType ''n''
     = Inr ((clean_properties (vnt_properties OddType) (properties odd_node) Map.empty)
              (''_identity'' \<mapsto> JNumber 9, ''_labels'' \<mapsto> JStrings [''TestOdd'', ''VNode'']))"
  by (simp add: neoNodeToRawVNode_def odd_node_def)

theorem neoNodeToRawVNode_witness:
  "(\<exists>e. neoNodeToRawVNode
          (Node \<lparr> identity = 7, labels = [''TestOdd'', ''DeletedVNode''],
                   properties = [(''id'', PStr ''_f1'')] \<rparr>) OddType ''n'' = Inl e)
   \<and> (\<exists>r. neoNodeToRawVNode (Node odd_node) OddType ''n'' = Inr r
          \<and> r ''_identity'' = Some (JNumber 9) \<and> r ''_labels'' = Some (JStrings [''TestOdd'', ''VNode''])
          \<and> r ''name'' = Some (JProp PNull))
   \<and> ''name'' \<in> fst ` set (vnt_properties OddType) \<and> ''name'' \<notin> fst ` set (properties odd_node)
   \<and> ''name'' \<notin> set object_prototype"
proof -
  obtain r where r: "neoNodeToRawVNode (Node odd_node) OddType ''n'' = Inr r"
    using odd_result by blast
  have h: "''name'' \<in> fst ` set (vnt_properties OddType)" "''name'' \<notin> fst ` set (properties odd_node)"
    "''name'' \<notin> set object_prototype"
    by (simp_all add: OddType_def odd_node_def object_prototype_def)
  have i: "identity odd_node = 9" "labels odd_node = [''TestOdd'', ''VNode'']"
    by (simp_all add: odd_node_def)
  note t = neoNodeToRawVNode_deleted_throws_absent_null
            [of "\<lparr> identity = 7, labels = [''TestOdd'', ''DeletedVNode''],
                   properties = [(''id'', PStr ''_f1'')] \<rparr>" OddType "''n''" "Node odd_node" r]
  from t have a: "\<exists>e. neoNodeToRawVNode
          (Node \<lparr> identity = 7, labels = [''TestOdd'', ''DeletedVNode''],
                   properties = [(''id'', PStr ''_f1'')] \<rparr>) OddType ''n'' = Inl e"
    by simp
  from t r have b: "r ''_identity'' = Some (JNumber 9)" "r ''_labels'' = Some (JStrings [''TestOdd'', ''VNode''])"
    and c: "\<forall>p \<in> fst ` set (vnt_properties OddType).
                  p \<notin> fst ` set (properties odd_node) \<longrightarrow> p \<notin> set object_prototype
                  \<longrightarrow> p \<noteq> ''_identity'' \<longrightarrow> p \<noteq> ''_labels''
                  \<longrightarrow> r p = Some (JProp PNull)"
    using i by auto
  from c h have "r ''name'' = Some (JProp PNull)"
    using bspec [OF c h(1)] by simp
  then show ?thesis
    using a b r h by simp
qed

text \<open>
  C10 as stated fails for declared names that the conversion does not treat as plain
  properties. The type declares every name of a member of \<open>Object.prototype\<close>, and
  \<open>_identity\<close> and \<open>_labels\<close>; the node has none of them. In the result, the members
  named like a member of \<open>Object.prototype\<close> hold that inherited member, found on the
  node through the prototype chain (and \<open>__proto__\<close> is no member of the result at all);
  \<open>_identity\<close> and \<open>_labels\<close> hold the identity and the labels of the node. None is null.
\<close>

theorem neoNodeToRawVNode_counterexample:
  "map fst (vnt_properties OddType) = ''id'' # ''name'' # object_prototype @ [''_identity'', ''_labels'']
   \<and> map fst (properties odd_node) = [''id'']
   \<and> map (member_of (neoNodeToRawVNode (Node odd_node) OddType ''n'')) object_prototype
       = [Some (JInherited ''constructor''), Some (JInherited ''__defineGetter__''),
          Some (JInherited ''__defineSetter__''), Some (JInherited ''hasOwnProperty''),
          Some (JInherited ''__lookupGetter__''), Some (JInherited ''__lookupSetter__''),
          Some (JInherited ''isPrototypeOf''), Some (JInherited ''propertyIsEnumerable''),
          Some (JInherited ''toString''), Some (JInherited ''valueOf''), None,
          Some (JInherited ''toLocaleString'')]
   \<and> member_of (neoNodeToRawVNode (Node odd_node) OddType ''n'') ''_identity'' = Some (JNumber 9)
   \<and> member_of (neoNodeToRawVNode (Node odd_node) OddType ''n'') ''_labels''
       = Some (JStrings [''TestOdd'', ''VNode''])"
  unfolding odd_result
  by (simp add: member_of_def OddType_def odd_node_def object_prototype_def js_assign_def js_in_def
      js_get_def)

section \<open>Properties of the trigger\<close>

lemma find_map_labels:
  "(\<And>x. identity (f x) = identity x \<and> labels (f x) = labels x) \<Longrightarrow>
   map_option labels (find (\<lambda>n. identity n = i) (map f xs)) = map_option labels (find (\<lambda>n. identity n = i) xs)"
  by (induction xs) auto

lemma labels_of_alt: "labels_of g i = (case map_option labels (find_node g i) of None \<Rightarrow> [] | Some ls \<Rightarrow> ls)"
  by (simp add: labels_of_def split: option.splits)

lemma labels_of_set_node_property [simp]:
  "labels_of (set_node_property g i k v) n = labels_of g n"
  unfolding labels_of_alt find_node_def set_node_property_def
  by (simp add: find_map_labels)

lemma is_labelled_set_node_property [simp]:
  "is_labelled (set_node_property g i k v) n l = is_labelled g n l"
  by (simp add: is_labelled_def)

lemma relationships_set_node_property [simp]:
  "relationships (set_node_property g i k v) = relationships g"
  by (simp add: set_node_property_def)

lemma has_modRel_set_node_property [simp]:
  "has_modRel (set_node_property g i k v) a n = has_modRel g a n"
  by (simp add: has_modRel_def)

lemma actions_set_node_property [simp]:
  "actions tx (set_node_property g i k v) = actions tx g"
  by (simp add: actions_def)

lemma changedRelProps_set_node_property [simp]:
  "changedRelProps tx (set_node_property g i k v) = changedRelProps tx g"
  by (simp add: changedRelProps_def)

text \<open>The check of record_changes does not depend on the details written so far.\<close>

lemma list_ex_map_cong:
  "(\<And>x. P (f x) = P x) \<Longrightarrow> list_ex P (map f xs) = list_ex P xs"
  by (induction xs) simp_all

lemma is_modRel_update:
  "is_modRel a n (if is_modRel a m r then r\<lparr> rel_properties := x \<rparr> else r) = is_modRel a n r"
  by (simp add: is_modRel_def)

lemma has_modRel_update:
  "has_modRel (g\<lparr> relationships := map (\<lambda>r. if is_modRel a m r then r\<lparr> rel_properties := f r \<rparr> else r) (relationships g) \<rparr>) a n
   = has_modRel g a n"
  unfolding has_modRel_def by (simp, rule list_ex_map_cong, rule is_modRel_update)

lemma record_changes_Inr:
  "record_changes g a cs = Inr g' \<Longrightarrow> c \<in> set cs \<Longrightarrow> has_modRel g a (modifiedNode c)"
proof (induction g a cs rule: record_changes.induct)
  case (1 g action)
  then show ?case by simp
next
  case (2 g action c' cs)
  then show ?case
    by (auto split: if_splits simp: has_modRel_update)
qed

lemma record_changes_Inl:
  "c \<in> set cs \<Longrightarrow> \<not> has_modRel g a (modifiedNode c) \<Longrightarrow> \<exists>msg. record_changes g a cs = Inl (ValidateFailed msg)"
proof (induction g a cs rule: record_changes.induct)
  case (1 g action)
  then show ?case by simp
next
  case (2 g action c' cs)
  then show ?case
    by (auto split: if_splits simp: has_modRel_update)
qed

lemma record_changes_error:
  "record_changes g a cs = Inl e \<Longrightarrow> \<exists>msg. e = ValidateFailed msg"
  by (induction g a cs rule: record_changes.induct) (auto split: if_splits)

lemma trackActionChanges_error:
  "trackActionChanges tx g = Inl e \<Longrightarrow> \<exists>msg. e = ValidateFailed msg"
  by (auto simp: trackActionChanges_def Let_def split: if_splits dest: record_changes_error)

lemmas fixture_defs = empty_tx_def system_user_def action_node_def performed_def modified_def db0_def
  g_noaction_def tx_noaction_def g_twoactions_def tx_twoactions_def g_oneaction_def tx_oneaction_def

lemmas trigger_defs = trackActionChanges_def actions_def is_labelled_def labels_of_def find_node_def
  changedRelProps_def all_changes_def chg_createdNodes_def chg_newLabels_def chg_removedLabels_def
  chg_newPropertyNodes_def chg_newRelationships_def chg_deletedRelationships_def
  label_pairs_def map_values_def lookup_list_def deletedNodesCount_def set_node_property_def
  set_property_def has_modRel_def is_modRel_def vnid_of_def getProp_def restrictedWrite_def
  digit_char_def



lemma label_pairs_iff:
  "(l, n) \<in> set (label_pairs m) \<longleftrightarrow> (\<exists>ns. (l, ns) \<in> set m \<and> n \<in> set ns)"
  by (auto simp: label_pairs_def)

lemma trackActionChanges_relprops:
  "changedRelProps tx g \<noteq> [] \<Longrightarrow>
   trackActionChanges tx g =
     (if length (actions tx g) \<noteq> 1
      then Inl (ValidateFailed (''every data write transaction should be associated with one Action, found ''
                  @ show_nat (length (actions tx g))))
      else Inl (ValidateFailed
             ''Changing relationship properties is not supported by Vertex Framework. Delete and re-create it instead.''))"
  by (simp add: trackActionChanges_def Let_def)

lemma restrictedWrite_trigger_fails:
  "code db = Inr (g, tx, r) \<Longrightarrow> trackActionChanges tx g = Inl e \<Longrightarrow> restrictedWrite False db code = (db, Inl e)"
  by (simp add: restrictedWrite_def)


lemma nodes_of_map_filter:
  "modifiedNode ` set (map (\<lambda>x. \<lparr> modifiedNode = f x, changeDetails = d x \<rparr>) (filter P xs))
     = f ` {x \<in> set xs. P x}"
  by (simp add: image_image)

lemma nodes_chg_createdNodes:
  "modifiedNode ` set (chg_createdNodes tx g)
     = {n \<in> set (tx_createdNodes tx). \<not> is_labelled g n ''Action'' \<and> \<not> is_labelled g n ''SlugId''}"
  unfolding chg_createdNodes_def by (simp only: nodes_of_map_filter image_ident)

lemma nodes_chg_newLabels:
  "modifiedNode ` set (chg_newLabels tx g)
     = snd ` {pair \<in> set (label_pairs (tx_assignedLabels tx)).
               (is_labelled g (snd pair) ''VNode'' \<or> is_labelled g (snd pair) ''DeletedVNode'')
               \<and> snd pair \<notin> set (tx_createdNodes tx)}"
  unfolding chg_newLabels_def by (simp only: nodes_of_map_filter image_ident)

lemma nodes_chg_removedLabels:
  "modifiedNode ` set (chg_removedLabels tx g)
     = snd ` {pair \<in> set (label_pairs (tx_removedLabels tx)).
               (is_labelled g (snd pair) ''VNode'' \<or> is_labelled g (snd pair) ''DeletedVNode'')
               \<and> snd pair \<notin> set (tx_deletedNodes tx)}"
  unfolding chg_removedLabels_def by (simp only: nodes_of_map_filter image_ident)

lemma nodes_chg_newPropertyNodes:
  "modifiedNode ` set (chg_newPropertyNodes tx g a)
     = npc_node ` {c \<in> set (map_values (tx_assignedNodeProperties tx) @ map_values (tx_removedNodeProperties tx)).
                    is_labelled g (npc_node c) ''VNode'' \<and> npc_node c \<noteq> a
                    \<and> npc_node c \<notin> set (tx_deletedNodes tx)}"
  unfolding chg_newPropertyNodes_def by (simp only: nodes_of_map_filter image_ident)

lemma nodes_chg_newRelationships:
  "modifiedNode ` set (chg_newRelationships tx g a)
     = startNode ` {rl \<in> set (tx_createdRelationships tx).
                     is_labelled g (startNode rl) ''VNode'' \<and> startNode rl \<noteq> a \<and> endNode rl \<noteq> a}"
  unfolding chg_newRelationships_def by (simp only: nodes_of_map_filter image_ident)

lemma nodes_chg_deletedRelationships:
  "modifiedNode ` set (chg_deletedRelationships tx g a)
     = startNode ` {rl \<in> set (tx_deletedRelationships tx).
                     (is_labelled g (startNode rl) ''VNode'' \<or> is_labelled g (startNode rl) ''DeletedVNode'')
                     \<and> startNode rl \<noteq> a \<and> endNode rl \<noteq> a
                     \<and> startNode rl \<notin> set (tx_deletedNodes tx) \<and> endNode rl \<notin> set (tx_deletedNodes tx)}"
  unfolding chg_deletedRelationships_def by (simp only: nodes_of_map_filter image_ident)

lemmas nodes_chg = nodes_chg_createdNodes nodes_chg_newLabels nodes_chg_removedLabels
  nodes_chg_newPropertyNodes nodes_chg_newRelationships nodes_chg_deletedRelationships

lemma nodes_all_changes:
  "modifiedNode ` set (all_changes tx g a)
     = modifiedNode ` set (chg_createdNodes tx g) \<union> modifiedNode ` set (chg_newLabels tx g)
       \<union> modifiedNode ` set (chg_removedLabels tx g) \<union> modifiedNode ` set (chg_newPropertyNodes tx g a)
       \<union> modifiedNode ` set (chg_newRelationships tx g a)
       \<union> modifiedNode ` set (chg_deletedRelationships tx g a)"
  by (simp add: all_changes_def image_Un Un_assoc)

lemma all_changes_set_node_property:
  "modifiedNode ` set (all_changes tx (set_node_property g i k v) a) = modifiedNode ` set (all_changes tx g a)"
  by (simp only: nodes_all_changes nodes_chg is_labelled_set_node_property)

lemma tracked_created:
  "n \<in> set (tx_createdNodes tx) \<Longrightarrow> \<not> is_labelled g n ''Action'' \<Longrightarrow> \<not> is_labelled g n ''SlugId''
   \<Longrightarrow> n \<in> modifiedNode ` set (all_changes tx g a)"
  by (simp add: nodes_all_changes nodes_chg_createdNodes)

lemma tracked_newLabel:
  assumes "(l, ns) \<in> set (tx_assignedLabels tx)" "n \<in> set ns"
    and "is_labelled g n ''VNode'' \<or> is_labelled g n ''DeletedVNode''" "n \<notin> set (tx_createdNodes tx)"
  shows "n \<in> modifiedNode ` set (all_changes tx g a)"
proof -
  have "(l, n) \<in> set (label_pairs (tx_assignedLabels tx))"
    using assms(1,2) label_pairs_iff by blast
  then have "n \<in> modifiedNode ` set (chg_newLabels tx g)"
    unfolding nodes_chg_newLabels using assms(3,4) by (intro image_eqI [where x = "(l, n)"]) simp_all
  then show ?thesis by (simp add: nodes_all_changes)
qed

lemma tracked_removedLabel:
  assumes "(l, ns) \<in> set (tx_removedLabels tx)" "n \<in> set ns"
    and "is_labelled g n ''VNode'' \<or> is_labelled g n ''DeletedVNode''" "n \<notin> set (tx_deletedNodes tx)"
  shows "n \<in> modifiedNode ` set (all_changes tx g a)"
proof -
  have "(l, n) \<in> set (label_pairs (tx_removedLabels tx))"
    using assms(1,2) label_pairs_iff by blast
  then have "n \<in> modifiedNode ` set (chg_removedLabels tx g)"
    unfolding nodes_chg_removedLabels using assms(3,4) by (intro image_eqI [where x = "(l, n)"]) simp_all
  then show ?thesis by (simp add: nodes_all_changes)
qed

lemma tracked_property:
  assumes "c \<in> set (map_values (tx_assignedNodeProperties tx) @ map_values (tx_removedNodeProperties tx))"
    and "npc_node c = n" "is_labelled g n ''VNode''" "n \<noteq> a" "n \<notin> set (tx_deletedNodes tx)"
  shows "n \<in> modifiedNode ` set (all_changes tx g a)"
proof -
  have "n \<in> modifiedNode ` set (chg_newPropertyNodes tx g a)"
    unfolding nodes_chg_newPropertyNodes using assms by (intro image_eqI [where x = c]) simp_all
  then show ?thesis by (simp add: nodes_all_changes)
qed

lemma tracked_newRelationship:
  assumes "rl \<in> set (tx_createdRelationships tx)"
    and "startNode rl = n" "is_labelled g n ''VNode''" "n \<noteq> a" "endNode rl \<noteq> a"
  shows "n \<in> modifiedNode ` set (all_changes tx g a)"
proof -
  have "n \<in> modifiedNode ` set (chg_newRelationships tx g a)"
    unfolding nodes_chg_newRelationships using assms by (intro image_eqI [where x = rl]) simp_all
  then show ?thesis by (simp add: nodes_all_changes)
qed

lemma tracked_deletedRelationship:
  assumes "rl \<in> set (tx_deletedRelationships tx)"
    and "startNode rl = n" "is_labelled g n ''VNode'' \<or> is_labelled g n ''DeletedVNode''"
    and "n \<noteq> a" "endNode rl \<noteq> a" "n \<notin> set (tx_deletedNodes tx)" "endNode rl \<notin> set (tx_deletedNodes tx)"
  shows "n \<in> modifiedNode ` set (all_changes tx g a)"
proof -
  have "n \<in> modifiedNode ` set (chg_deletedRelationships tx g a)"
    unfolding nodes_chg_deletedRelationships using assms by (intro image_eqI [where x = rl]) simp_all
  then show ?thesis by (simp add: nodes_all_changes)
qed

lemmas fixture2_defs = franchise_node_def movie_node_def franchise_is_def g_undeclared_def tx_undeclared_def
  db_linked_def g_relprop_def weight_change_def tx_relprop_def





lemmas fixture3_defs = slugid_node_def identifies_def action_created_def db_softdeleted_def
  retitled_movie_def title_change_def g_softdeleted_def tx_softdeleted_def g_purged_def tx_purged_def
  db_slug_def g_slug_def tx_slug_def

lemma softdeleted_commits:
  "restrictedWrite False db_softdeleted (\<lambda>db. Inr (g_softdeleted, tx_softdeleted, ()))
     = (set_node_property g_softdeleted 1 ''deletedNodesCount'' (PInt 0), Inr ())"
  by (simp add: fixture_defs fixture2_defs fixture3_defs trigger_defs)

lemma purged_commits:
  "restrictedWrite False (db_linked ''VNode'') (\<lambda>db. Inr (g_purged, tx_purged, ()))
     = (set_node_property g_purged 1 ''deletedNodesCount'' (PInt 1), Inr ())"
  by (simp add: fixture_defs fixture2_defs fixture3_defs trigger_defs)

lemma slug_commits:
  "restrictedWrite False db_slug (\<lambda>db. Inr (g_slug, tx_slug, ()))
     = (set_node_property g_slug 1 ''deletedNodesCount'' (PInt 0), Inr ())"
  by (simp add: fixture_defs fixture2_defs fixture3_defs trigger_defs)


section \<open>Properties of UndoAction\<close>

lemmas fixture_undo_defs = db_movies_def db_after1_def db_after2_def db_after3_def create_undo_def no_changes_def
  changes_a1_def changes_a2_def not_reverted_def reverted_by_u0_def changes_of_def movie_now_def
  db_updated_def changes_update_def changes_gdpr_def no_finish_def

lemmas undo_defs = nodes_with_id_def id_in_def node_is_def add_label_def remove_label_def swap_label_def
  next_rel_id_def create_relationship_def recreate_rows_def still_new_def property_rows_def
  set_properties_def same_map_def props_eq_def same_rel_change_def rel_matches_def rel_groups_def
  delete_relationships_def js_truthy_def changed_condition_def check_created_row_def collect_ids_def

lemma runAction_apply_fails:
  "apply (createAction db) = Inl e \<Longrightarrow> runAction paused db createAction apply finish = (db, Inl e)"
  by (simp add: runAction_def restrictedWrite_def)

text \<open>
  C4. When the Action to undo already has a reverting Action (\<open>revertedBy\<close> is not
  null), \<open>apply\<close> throws the UndoConflictError "That action was already undone.", and
  the run of the UndoAction ends with the database as it was.
\<close>

theorem undo_twice_conflict:
  assumes "pullOne (createAction db) actionId = Inr prevAction"
    and "pa_revertedBy prevAction \<noteq> None"
  shows "UndoAction_apply pullOne getActionChanges (createAction db) actionId
           = Inl (UndoConflictError ''That action was already undone.'')
         \<and> runAction paused db createAction (\<lambda>g. UndoAction_apply pullOne getActionChanges g actionId) finish
           = (db, Inl (UndoConflictError ''That action was already undone.''))"
proof -
  have "UndoAction_apply pullOne getActionChanges (createAction db) actionId
           = Inl (UndoConflictError ''That action was already undone.'')"
    using assms by (simp add: UndoAction_apply_def)
  then show ?thesis
    by (simp add: runAction_apply_fails)
qed

theorem undo_twice_conflict_witness:
  "reverted_by_u0 (create_undo db_after2) ''_a2'' = Inr \<lparr> pa_deletedNodesCount = 0, pa_revertedBy = Some ''_u0'' \<rparr>
   \<and> UndoAction_apply reverted_by_u0 (changes_of changes_a2) (create_undo db_after2) ''_a2''
       = Inl (UndoConflictError ''That action was already undone.'')
   \<and> runAction False db_after2 create_undo
        (\<lambda>g. UndoAction_apply reverted_by_u0 (changes_of changes_a2) g ''_a2'') no_finish
       = (db_after2, Inl (UndoConflictError ''That action was already undone.''))"
  using undo_twice_conflict [of reverted_by_u0 create_undo db_after2 "''_a2''"
          "\<lparr> pa_deletedNodesCount = 0, pa_revertedBy = Some ''_u0'' \<rparr>" "changes_of changes_a2" False no_finish]
  by (simp add: reverted_by_u0_def)

text \<open>
  C5. When the count of permanently deleted nodes recorded for the Action is not zero,
  \<open>apply\<close> throws an UndoConflictError and the run of the UndoAction ends with the
  database as it was. The error is "Cannot undo an Action that permanently deleted data."
  for every Action that has not been reverted, which is every Action with such a count,
  as this very check keeps any UndoAction on it from committing.
\<close>

theorem undo_permanent_deletion_conflict:
  assumes "pullOne (createAction db) actionId = Inr prevAction"
    and "getActionChanges (createAction db) actionId = Inr changes"
    and "cs_deletedNodesCount changes \<noteq> 0"
  shows "\<exists>msg. UndoAction_apply pullOne getActionChanges (createAction db) actionId = Inl (UndoConflictError msg)
           \<and> runAction paused db createAction (\<lambda>g. UndoAction_apply pullOne getActionChanges g actionId) finish
               = (db, Inl (UndoConflictError msg))
           \<and> (pa_revertedBy prevAction = None
                \<longrightarrow> msg = ''Cannot undo an Action that permanently deleted data.'')"
proof -
  have "\<exists>msg. UndoAction_apply pullOne getActionChanges (createAction db) actionId = Inl (UndoConflictError msg)
           \<and> (pa_revertedBy prevAction = None
                \<longrightarrow> msg = ''Cannot undo an Action that permanently deleted data.'')"
    using assms by (simp add: UndoAction_apply_def)
  then show ?thesis
    by (auto simp: runAction_apply_fails)
qed

theorem undo_permanent_deletion_conflict_witness:
  "not_reverted (create_undo db_after2) ''_a9'' = Inr \<lparr> pa_deletedNodesCount = 0, pa_revertedBy = None \<rparr>
   \<and> cs_deletedNodesCount changes_gdpr = 1
   \<and> UndoAction_apply not_reverted (changes_of changes_gdpr) (create_undo db_after2) ''_a9''
       = Inl (UndoConflictError ''Cannot undo an Action that permanently deleted data.'')
   \<and> runAction False db_after2 create_undo
        (\<lambda>g. UndoAction_apply not_reverted (changes_of changes_gdpr) g ''_a9'') no_finish
       = (db_after2, Inl (UndoConflictError ''Cannot undo an Action that permanently deleted data.''))"
  using undo_permanent_deletion_conflict [of not_reverted create_undo db_after2 "''_a9''"
          "\<lparr> pa_deletedNodesCount = 0, pa_revertedBy = None \<rparr>" "changes_of changes_gdpr" changes_gdpr
          False no_finish]
  by (auto simp: not_reverted_def changes_of_def changes_gdpr_def no_changes_def)

lemma UndoAction_apply_changes:
  "pullOne g actionId = Inr prevAction \<Longrightarrow> pa_revertedBy prevAction = None \<Longrightarrow>
   getActionChanges g actionId = Inr changes \<Longrightarrow> cs_deletedNodesCount changes = 0 \<Longrightarrow>
   UndoAction_apply pullOne getActionChanges g actionId = undo_changes changes g"
  by (simp add: UndoAction_apply_def)

lemma swap_label_nil: "swap_label a b [] g = g"
  by (simp add: swap_label_def id_in_def map_idI)

lemma undo_changes_only_created:
  "cs_softDeletedNodes changes = [] \<Longrightarrow> cs_deletedRelationships changes = [] \<Longrightarrow>
   cs_modifiedNodes changes = [] \<Longrightarrow>
   undo_changes changes g =
     (case delete_created_relationships changes g of
        Inl e \<Rightarrow> Inl e
      | Inr g4 \<Rightarrow>
          (case delete_created_nodes changes g4 of
             Inl e \<Rightarrow> Inl e
           | Inr g5 \<Rightarrow> Inr (redelete_nodes changes g5,
                              \<lparr> resultData = [], modifiedNodes = undo_modifiedNodes changes \<rparr>)))"
  by (simp add: undo_changes_def restore_soft_deleted_def restore_relationships_def revert_properties_def)

lemma fold_dedup_length:
  "length (fold (\<lambda>cr acc. if list_ex (same_rel_change cr) acc then acc else acc @ [cr]) xs acc)
     \<le> length acc + length xs"
proof (induction xs arbitrary: acc)
  case Nil
  then show ?case by simp
next
  case (Cons x xs)
  show ?case
  proof (cases "list_ex (same_rel_change x) acc")
    case True
    then show ?thesis using Cons [of acc] by simp
  next
    case False
    then show ?thesis using Cons [of "acc @ [x]"] by simp
  qed
qed

lemma rel_groups_length:
  "length (rel_groups g crs) \<le> length (filter (\<lambda>cr. rel_matches g cr \<noteq> []) crs)"
  unfolding rel_groups_def using fold_dedup_length [of "filter (\<lambda>cr. rel_matches g cr \<noteq> []) crs" "[]"]
  by simp

lemma rel_groups_short:
  assumes "cr \<in> set crs" "rel_matches g cr = []"
  shows "length (rel_groups g crs) < length crs"
proof -
  have "length (filter (\<lambda>cr. rel_matches g cr \<noteq> []) crs) < length crs"
    using assms by (intro length_filter_less [where x = cr]) simp_all
  then show ?thesis
    using rel_groups_length [of g crs] by linarith
qed

lemma delete_created_relationships_gone:
  assumes "cr \<in> set (cs_createdRelationships changes)" "rel_matches g cr = []"
  shows "delete_created_relationships changes g
           = Inl (UndoConflictError ''One of the relationships created by that action cannot be deleted; cannot undo.'')"
proof -
  have "length (rel_groups g (cs_createdRelationships changes)) < length (cs_createdRelationships changes)"
    using assms by (rule rel_groups_short)
  moreover from this have "cs_createdRelationships changes \<noteq> []"
    by auto
  ultimately show ?thesis
    by (simp add: delete_created_relationships_def Let_def)
qed

text \<open>
  C6, as amended. When the Action to undo only created things (nothing soft-deleted, no
  relationship deleted, no property modified) and one of the relationships it created has
  no match left in the graph (a later Action removed it), \<open>apply\<close> throws the
  UndoConflictError of the step that deletes created relationships, "One of the
  relationships created by that action cannot be deleted; cannot undo.", and the run of
  the UndoAction ends with the database as it was.
\<close>

theorem undo_created_relationship_gone:
  assumes "pullOne (createAction db) actionId = Inr prevAction"
    and "pa_revertedBy prevAction = None"
    and "getActionChanges (createAction db) actionId = Inr changes"
    and "cs_deletedNodesCount changes = 0"
    and "cs_softDeletedNodes changes = []"
    and "cs_deletedRelationships changes = []"
    and "cs_modifiedNodes changes = []"
    and "cr \<in> set (cs_createdRelationships changes)"
    and "rel_matches (createAction db) cr = []"
  shows "UndoAction_apply pullOne getActionChanges (createAction db) actionId
           = Inl (UndoConflictError ''One of the relationships created by that action cannot be deleted; cannot undo.'')
         \<and> runAction paused db createAction (\<lambda>g. UndoAction_apply pullOne getActionChanges g actionId) finish
           = (db, Inl (UndoConflictError
                ''One of the relationships created by that action cannot be deleted; cannot undo.''))"
proof -
  have "UndoAction_apply pullOne getActionChanges (createAction db) actionId
          = undo_changes changes (createAction db)"
    using assms(1-4) by (rule UndoAction_apply_changes)
  also have "\<dots> = Inl (UndoConflictError
                ''One of the relationships created by that action cannot be deleted; cannot undo.'')"
    using assms(5-7) delete_created_relationships_gone [OF assms(8,9)]
    by (simp add: undo_changes_only_created)
  finally show ?thesis
    by (simp add: runAction_apply_fails)
qed

lemma scenario_no_match:
  "rel_matches (create_undo db_after3)
     \<lparr> rc_type = ''FRANCHISE_IS'', rc_from = ''_gotg'', rc_to = ''_mcu'', rc_properties = [] \<rparr> = []"
  by (simp add: rel_matches_def create_undo_def db_after3_def db_movies_def performed_def modified_def)

theorem undo_created_relationship_gone_witness:
  "not_reverted (create_undo db_after3) ''_a2'' = Inr \<lparr> pa_deletedNodesCount = 0, pa_revertedBy = None \<rparr>
   \<and> changes_of changes_a2 (create_undo db_after3) ''_a2'' = Inr changes_a2
   \<and> cs_createdRelationships changes_a2
       = [\<lparr> rc_type = ''FRANCHISE_IS'', rc_from = ''_gotg'', rc_to = ''_mcu'', rc_properties = [] \<rparr>]
   \<and> UndoAction_apply not_reverted (changes_of changes_a2) (create_undo db_after3) ''_a2''
       = Inl (UndoConflictError ''One of the relationships created by that action cannot be deleted; cannot undo.'')
   \<and> runAction False db_after3 create_undo
        (\<lambda>g. UndoAction_apply not_reverted (changes_of changes_a2) g ''_a2'') no_finish
       = (db_after3, Inl (UndoConflictError
            ''One of the relationships created by that action cannot be deleted; cannot undo.''))"
proof -
  have h1: "not_reverted (create_undo db_after3) ''_a2'' = Inr \<lparr> pa_deletedNodesCount = 0, pa_revertedBy = None \<rparr>"
    by (simp add: not_reverted_def)
  have h3: "changes_of changes_a2 (create_undo db_after3) ''_a2'' = Inr changes_a2"
    by (simp add: changes_of_def)
  have cs: "cs_deletedNodesCount changes_a2 = 0" "cs_softDeletedNodes changes_a2 = []"
    "cs_deletedRelationships changes_a2 = []" "cs_modifiedNodes changes_a2 = []"
    "cs_createdRelationships changes_a2
       = [\<lparr> rc_type = ''FRANCHISE_IS'', rc_from = ''_gotg'', rc_to = ''_mcu'', rc_properties = [] \<rparr>]"
    by (simp_all add: changes_a2_def no_changes_def)
  have h8: "\<lparr> rc_type = ''FRANCHISE_IS'', rc_from = ''_gotg'', rc_to = ''_mcu'', rc_properties = [] \<rparr>
              \<in> set (cs_createdRelationships changes_a2)"
    by (simp add: cs)
  show ?thesis
    using undo_created_relationship_gone
            [of not_reverted create_undo db_after3 "''_a2''" "\<lparr> pa_deletedNodesCount = 0, pa_revertedBy = None \<rparr>"
                "changes_of changes_a2" changes_a2
                "\<lparr> rc_type = ''FRANCHISE_IS'', rc_from = ''_gotg'', rc_to = ''_mcu'', rc_properties = [] \<rparr>"
                False no_finish,
             OF h1 _ h3 cs(1) cs(2) cs(3) cs(4) h8 scenario_no_match]
          h1 h3 cs(5)
    by simp
qed

lemma scenario_undo_a2:
  "UndoAction_apply not_reverted (changes_of changes_a2) (create_undo db_after3) ''_a2''
     = Inl (UndoConflictError ''One of the relationships created by that action cannot be deleted; cannot undo.'')"
proof -
  have cs: "cs_deletedNodesCount changes_a2 = 0" "cs_softDeletedNodes changes_a2 = []"
    "cs_deletedRelationships changes_a2 = []" "cs_modifiedNodes changes_a2 = []"
    by (simp_all add: changes_a2_def no_changes_def)
  have h8: "\<lparr> rc_type = ''FRANCHISE_IS'', rc_from = ''_gotg'', rc_to = ''_mcu'', rc_properties = [] \<rparr>
              \<in> set (cs_createdRelationships changes_a2)"
    by (simp add: changes_a2_def no_changes_def)
  have "UndoAction_apply not_reverted (changes_of changes_a2) (create_undo db_after3) ''_a2''
          = undo_changes changes_a2 (create_undo db_after3)"
    by (rule UndoAction_apply_changes [where prevAction = "\<lparr> pa_deletedNodesCount = 0, pa_revertedBy = None \<rparr>"])
       (simp_all add: not_reverted_def changes_of_def cs)
  then show ?thesis
    using delete_created_relationships_gone [OF h8 scenario_no_match]
    by (simp add: undo_changes_only_created cs)
qed

text \<open>
  C6 as stated names the wrong conflict: in the scenario (the movie and its link were
  created by \<open>_a2\<close>, the link was removed by \<open>_a3\<close>) the error is not the one of
  the step that re-creates deleted relationships.
\<close>

theorem undo_created_relationship_gone_counterexample:
  "UndoAction_apply not_reverted (changes_of changes_a2) (create_undo db_after3) ''_a2''
     \<noteq> Inl (UndoConflictError
           ''One of the nodes relationships deleted by that action cannot be re-created; cannot undo.'')"
  by (simp add: scenario_undo_a2)

lemma movie_by_id: "nodes_with_id (db_updated t y) ''VNode'' ''_gotg'' = [movie_now t y]"
  by (simp add: nodes_with_id_def db_updated_def movie_now_def system_user_def getProp_def)

lemma stale_rows:
  "property_rows (db_updated ''Guardians of the Galaxy'' 2015) (cs_modifiedNodes changes_update)
     = [(4, ''title'', PStr ''Guardians'')]"
  by (simp add: property_rows_def movie_by_id changes_update_def no_changes_def)
     (simp add: movie_now_def getProp_def still_new_def)

lemma stale_set:
  "set_properties [(4, ''title'', PStr ''Guardians'')] (db_updated ''Guardians of the Galaxy'' 2015)
     = db_updated ''Guardians'' 2015"
  by (simp add: set_properties_def set_node_property_def set_property_def db_updated_def movie_now_def
      system_user_def)

lemma changes_update_fields:
  "cs_softDeletedNodes changes_update = []" "cs_deletedRelationships changes_update = []"
  "cs_createdRelationships changes_update = []" "cs_createdNodes changes_update = []"
  "cs_unDeletedNodes changes_update = []" "length (cs_modifiedNodes changes_update) = 1"
  "cs_deletedNodesCount changes_update = 0"
  by (simp_all add: changes_update_def no_changes_def)

lemma stale_undo:
  "undo_changes changes_update (db_updated ''Guardians of the Galaxy'' 2015)
     = Inr (db_updated ''Guardians'' 2015, \<lparr> resultData = [], modifiedNodes = [''_gotg''] \<rparr>)"
proof -
  have m: "undo_modifiedNodes changes_update = [''_gotg'']"
    by (simp add: undo_modifiedNodes_def collect_ids_def changes_update_def no_changes_def)
  have r: "revert_properties changes_update (db_updated ''Guardians of the Galaxy'' 2015)
             = Inr (db_updated ''Guardians'' 2015)"
    by (simp add: revert_properties_def changes_update_fields stale_rows stale_set)
  show ?thesis
    by (simp add: undo_changes_def restore_soft_deleted_def restore_relationships_def
        delete_created_relationships_def delete_created_nodes_def redelete_nodes_def
        changes_update_fields r m swap_label_nil)
qed

text \<open>
  C7 (the code departs from the claim). The Action changed the title and the year of the
  movie; the year has been changed again since (2015, where the Action recorded 2014).
  The query returns one row, for the title, and the change set has one modified node, so
  the comparison of the two lengths lets the undo pass: \<open>apply\<close> returns, with the title
  reverted and the stale year left as it is.
\<close>

theorem undo_stale_property_passes:
  "UndoAction_apply not_reverted (changes_of changes_update)
       (db_updated ''Guardians of the Galaxy'' 2015) ''_a4''
     = Inr (db_updated ''Guardians'' 2015, \<lparr> resultData = [], modifiedNodes = [''_gotg''] \<rparr>)"
proof -
  have "UndoAction_apply not_reverted (changes_of changes_update)
          (db_updated ''Guardians of the Galaxy'' 2015) ''_a4''
        = undo_changes changes_update (db_updated ''Guardians of the Galaxy'' 2015)"
    by (rule UndoAction_apply_changes [where prevAction = "\<lparr> pa_deletedNodesCount = 0, pa_revertedBy = None \<rparr>"])
       (simp_all add: not_reverted_def changes_of_def changes_update_fields)
  then show ?thesis
    by (simp add: stale_undo)
qed

text \<open>
  The same comparison of lengths rejects the undo of that update when nothing has changed
  since: both properties pass the check, two rows are returned for one modified node.
\<close>

lemma fresh_rows:
  "property_rows (db_updated ''Guardians of the Galaxy'' 2014) (cs_modifiedNodes changes_update)
     = [(4, ''title'', PStr ''Guardians''), (4, ''year'', PInt 2013)]"
  by (simp add: property_rows_def movie_by_id changes_update_def no_changes_def)
     (simp add: movie_now_def getProp_def still_new_def)

lemma undo_two_properties_unchanged:
  "undo_changes changes_update (db_updated ''Guardians of the Galaxy'' 2014)
     = Inl (UndoConflictError
         ''One of the node properties changed by that action has since been changed; cannot undo.'')"
proof -
  have r: "revert_properties changes_update (db_updated ''Guardians of the Galaxy'' 2014)
             = Inl (UndoConflictError
                 ''One of the node properties changed by that action has since been changed; cannot undo.'')"
    by (simp add: revert_properties_def changes_update_fields fresh_rows)
  show ?thesis
    by (simp add: undo_changes_def restore_soft_deleted_def restore_relationships_def changes_update_fields r)
qed

lemma created_now:
  "filter (\<lambda>n. ''VNode'' \<in> set (labels n) \<and> id_in n (map cn_id (cs_createdNodes changes_a1)))
     (nodes (create_undo db_after1)) = [franchise_node 2 [''TestMovieFranchise'', ''VNode'']]"
  by (simp add: create_undo_def db_after1_def changes_a1_def no_changes_def id_in_def getProp_def
      system_user_def action_node_def franchise_node_def)

lemma created_check:
  "check_created_rows (cs_createdNodes changes_a1) [franchise_node 2 [''TestMovieFranchise'', ''VNode'']]
     = Some (UndoConflictError
         ''One of the nodes created by that action has since been modified (property id changed); cannot undo.'')"
  by (simp add: changes_a1_def no_changes_def franchise_node_def check_created_row_def
      changed_condition_def js_truthy_def)

lemma created_nodes_a1:
  "delete_created_nodes changes_a1 (create_undo db_after1)
     = Inl (UndoConflictError
         ''One of the nodes created by that action has since been modified (property id changed); cannot undo.'')"
proof -
  have l: "length (cs_createdNodes changes_a1) = 1"
    by (simp add: changes_a1_def no_changes_def)
  show ?thesis
    by (simp add: delete_created_nodes_def Let_def created_now created_check l del: check_created_rows.simps)
qed

text \<open>
  C1 (the code departs from the claim). The first step of the round trip of the tests
  already fails: right after the Action that created the franchise has committed, with
  the franchise exactly as it was created, the UndoAction for it throws "modified since
  creation" for the property \<open>id\<close>, and its run ends with the database as it was. The
  condition \<open>currentProperties[propName] ?? null !== createdValue\<close> is true for every
  property whose current value is truthy.
\<close>

theorem undo_of_creation_conflict:
  "properties (franchise_node 2 [''TestMovieFranchise'', ''VNode'']) = cn_properties (hd (cs_createdNodes changes_a1))
   \<and> UndoAction_apply not_reverted (changes_of changes_a1) (create_undo db_after1) ''_a1''
       = Inl (UndoConflictError
           ''One of the nodes created by that action has since been modified (property id changed); cannot undo.'')
   \<and> runAction False db_after1 create_undo
        (\<lambda>g. UndoAction_apply not_reverted (changes_of changes_a1) g ''_a1'') no_finish
       = (db_after1, Inl (UndoConflictError
           ''One of the nodes created by that action has since been modified (property id changed); cannot undo.''))"
proof -
  have cs: "cs_deletedNodesCount changes_a1 = 0" "cs_softDeletedNodes changes_a1 = []"
    "cs_deletedRelationships changes_a1 = []" "cs_modifiedNodes changes_a1 = []"
    "cs_createdRelationships changes_a1 = []"
    by (simp_all add: changes_a1_def no_changes_def)
  have "UndoAction_apply not_reverted (changes_of changes_a1) (create_undo db_after1) ''_a1''
          = undo_changes changes_a1 (create_undo db_after1)"
    by (rule UndoAction_apply_changes [where prevAction = "\<lparr> pa_deletedNodesCount = 0, pa_revertedBy = None \<rparr>"])
       (simp_all add: not_reverted_def changes_of_def cs)
  also have "\<dots> = Inl (UndoConflictError
           ''One of the nodes created by that action has since been modified (property id changed); cannot undo.'')"
    by (simp add: undo_changes_only_created cs delete_created_relationships_def created_nodes_a1)
  finally have a: "UndoAction_apply not_reverted (changes_of changes_a1) (create_undo db_after1) ''_a1''
       = Inl (UndoConflictError
           ''One of the nodes created by that action has since been modified (property id changed); cannot undo.'')" .
  have p: "properties (franchise_node 2 [''TestMovieFranchise'', ''VNode''])
             = cn_properties (hd (cs_createdNodes changes_a1))"
    by (simp add: franchise_node_def changes_a1_def no_changes_def)
  show ?thesis
    using a p by (simp add: runAction_apply_fails)
qed

section \<open>Properties of updateToOneRelationship\<close>

lemma fold_max_ge: "(a::nat) \<le> fold max xs a"
  by (induction xs arbitrary: a) (auto intro: le_trans [OF max.cobounded2])

lemma fold_max_mem: "(x::nat) \<in> set xs \<Longrightarrow> x \<le> fold max xs a"
proof (induction xs arbitrary: a)
  case Nil
  then show ?case by simp
next
  case (Cons y ys)
  show ?case
  proof (cases "x = y")
    case True
    have "max y a \<le> fold max ys (max y a)" by (rule fold_max_ge)
    then show ?thesis using True by simp
  next
    case False
    then have "x \<in> set ys" using Cons.prems by simp
    then show ?thesis using Cons.IH by simp
  qed
qed

lemma next_rel_id_fresh: "r \<in> set (relationships g) \<Longrightarrow> rel_identity r \<noteq> next_rel_id g"
proof -
  assume "r \<in> set (relationships g)"
  then have "rel_identity r \<le> fold max (map rel_identity (relationships g)) 0"
    by (intro fold_max_mem) simp
  then show ?thesis by (simp add: next_rel_id_def)
qed

lemma next_rel_id_notin: "next_rel_id g \<notin> rel_identity ` set (relationships g)"
  by (auto dest: next_rel_id_fresh)

text \<open>One MERGE step from an empty list of rows.\<close>

lemma merge_row_cases:
  "merge_row relType (s, t) (g, []) =
     (if rels_between g relType s t = []
      then (create_relationship (s, relType, [], t) g, [(s, t, next_rel_id g)])
      else (g, map (\<lambda>r. (s, t, rel_identity r)) (rels_between g relType s t)))"
  by (simp add: merge_row_def Let_def)

lemma merge_row_nodes: "nodes (fst (merge_row relType (s, t) (g, []))) = nodes g"
  by (simp add: merge_row_cases create_relationship_def)

lemma merge_row_rows_nonempty: "snd (merge_row relType (s, t) (g, [])) \<noteq> []"
  by (simp add: merge_row_cases)

lemma merge_row_rows_fst: "row \<in> set (snd (merge_row relType (s, t) (g, []))) \<Longrightarrow> fst row = s"
  by (auto simp: merge_row_cases split: if_splits)

lemma merge_row_distinct:
  "distinct (map rel_identity (relationships g)) \<Longrightarrow>
   distinct (map rel_identity (relationships (fst (merge_row relType (s, t) (g, [])))))"
  using next_rel_id_notin [of g]
  by (simp add: merge_row_cases create_relationship_def)

lemma rels_between_iff:
  "r \<in> set (rels_between g relType s t) \<longleftrightarrow>
   r \<in> set (relationships g) \<and> rel_type r = relType \<and> startNode r = s \<and> endNode r = t"
  by (auto simp: rels_between_def)

lemma merge_row_rids:
  "rid \<in> snd ` snd ` set (snd (merge_row relType (s, t) (g, []))) \<longleftrightarrow>
   (\<exists>r \<in> set (rels_between (fst (merge_row relType (s, t) (g, []))) relType s t). rel_identity r = rid)"
proof (cases "rels_between g relType s t = []")
  case True
  have "rels_between (create_relationship (s, relType, [], t) g) relType s t
          = [\<lparr> rel_identity = next_rel_id g, rel_type = relType, startNode = s, endNode = t,
                rel_properties = [] \<rparr>]"
    using True by (simp add: rels_between_def create_relationship_def)
  then show ?thesis
    using True by (auto simp: merge_row_cases)
next
  case False
  then show ?thesis
    by (auto simp: merge_row_cases image_image)
qed


lemma is_labelled_nodes: "nodes g = nodes g' \<Longrightarrow> is_labelled g x l = is_labelled g' x l"
  by (simp add: is_labelled_def labels_of_def find_node_def)

lemma vnid_of_nodes: "nodes g = nodes g' \<Longrightarrow> vnid_of g x = vnid_of g' x"
  by (simp add: vnid_of_def find_node_def)

lemma nodes_delete_relationships [simp]: "nodes (delete_relationships ids g) = nodes g"
  by (simp add: delete_relationships_def)

lemma nodes_set_rel_properties [simp]: "nodes (set_rel_properties ps ids g) = nodes g"
  by (simp add: set_rel_properties_def)

lemma rels_to_vnodes_iff:
  "r \<in> set (rels_to_vnodes g relType s) \<longleftrightarrow>
   r \<in> set (relationships g) \<and> rel_type r = relType \<and> startNode r = s \<and> is_labelled g (endNode r) ''VNode''"
  by (auto simp: rels_to_vnodes_def)

lemma rels_to_vnodes_delete:
  "rels_to_vnodes (delete_relationships ids g) relType s
     = filter (\<lambda>r. rel_identity r \<notin> set ids) (rels_to_vnodes g relType s)"
proof -
  have "\<And>x. is_labelled (delete_relationships ids g) x ''VNode'' = is_labelled g x ''VNode''"
    by (rule is_labelled_nodes) simp
  then show ?thesis
    by (simp add: rels_to_vnodes_def delete_relationships_def conj_commute cong: conj_cong)
qed

lemma distinct_all_equal:
  "distinct ys \<Longrightarrow> (\<And>y. y \<in> set ys \<Longrightarrow> y = c) \<Longrightarrow> length ys \<le> 1"
proof (cases ys)
  case Nil
  then show ?thesis by simp
next
  case (Cons a as)
  assume d: "distinct ys" and e: "\<And>y. y \<in> set ys \<Longrightarrow> y = c"
  have "as = []"
  proof (cases as)
    case Nil
    then show ?thesis .
  next
    case (Cons b bs)
    with \<open>ys = a # as\<close> d e [of a] e [of b] show ?thesis by simp
  qed
  with Cons show ?thesis by simp
qed

lemma filter_unique_id:
  assumes "distinct (map f xs)" and "\<And>x. x \<in> set xs \<Longrightarrow> Q x \<Longrightarrow> f x = c"
  shows "length (filter Q xs) \<le> 1"
proof -
  have "distinct (map f (filter Q xs))"
    using assms(1) by (rule distinct_map_filter)
  moreover have "\<And>y. y \<in> set (map f (filter Q xs)) \<Longrightarrow> y = c"
    using assms(2) by auto
  ultimately have "length (map f (filter Q xs)) \<le> 1"
    by (rule distinct_all_equal)
  then show ?thesis by simp
qed

lemma same_id_same_rel:
  "distinct (map rel_identity rs) \<Longrightarrow> r \<in> set rs \<Longrightarrow> r' \<in> set rs \<Longrightarrow> rel_identity r = rel_identity r'
   \<Longrightarrow> r = r'"
  by (meson distinct_map inj_onD)


lemma old_rels_ids:
  "x \<in> set (map rel_identity (concat (map (old_rels g relType) rows))) \<longleftrightarrow>
   (\<exists>row \<in> set rows. \<exists>r \<in> set (rels_to_vnodes g relType (fst row)).
       rel_identity r \<noteq> snd (snd row) \<and> rel_identity r = x)"
  by (auto simp: old_rels_def split: prod.splits) force+

lemma set_rel_properties_ids [simp]:
  "map rel_identity (relationships (set_rel_properties ps ids g)) = map rel_identity (relationships g)"
  by (simp add: set_rel_properties_def comp_def if_distrib [of rel_identity] cong: if_cong)

lemma set_rel_properties_mem:
  "r \<in> set (relationships (set_rel_properties ps ids g)) \<longleftrightarrow>
   (\<exists>r0 \<in> set (relationships g).
      r = (if rel_identity r0 \<in> set ids
           then r0\<lparr> rel_properties := filter (\<lambda>kv. snd kv \<noteq> PNull) ps \<rparr> else r0))"
  by (auto simp: set_rel_properties_def)


lemma ids_of_sublist:
  assumes "distinct (map rel_identity rs)" "set sub \<subseteq> set rs" "r \<in> set rs"
    "rel_identity r \<in> set (map rel_identity sub)"
  shows "r \<in> set sub"
proof -
  from assms(4) obtain r' where r': "r' \<in> set sub" "rel_identity r' = rel_identity r"
    by auto
  then have "r' \<in> set rs" using assms(2) by auto
  with assms(1,3) r'(2) have "r = r'"
    by (intro same_id_same_rel [of rs]) simp_all
  with r'(1) show ?thesis by simp
qed

lemma filter_delete_outside:
  assumes "distinct (map rel_identity (relationships g))" "set sub \<subseteq> set (relationships g)"
    and "\<And>r. r \<in> set sub \<Longrightarrow> P r"
  shows "filter (\<lambda>r. \<not> P r) (relationships (delete_relationships (map rel_identity sub) g))
           = filter (\<lambda>r. \<not> P r) (relationships g)"
proof -
  have "\<And>r. r \<in> set (relationships g) \<Longrightarrow> \<not> P r \<Longrightarrow> rel_identity r \<notin> set (map rel_identity sub)"
    using ids_of_sublist [OF assms(1,2)] assms(3) by blast
  then show ?thesis
    by (auto simp: delete_relationships_def intro: filter_cong)
qed

lemma filter_set_outside:
  assumes "distinct (map rel_identity (relationships g))" "set sub \<subseteq> set (relationships g)"
    and "\<And>r. r \<in> set sub \<Longrightarrow> P r"
    and "\<And>r qs. P (r\<lparr> rel_properties := qs \<rparr>) = P r"
  shows "filter (\<lambda>r. \<not> P r) (relationships (set_rel_properties ps (map rel_identity sub) g))
           = filter (\<lambda>r. \<not> P r) (relationships g)"
proof -
  have out: "\<And>r. r \<in> set (relationships g) \<Longrightarrow> \<not> P r \<Longrightarrow> rel_identity r \<notin> set (map rel_identity sub)"
    using ids_of_sublist [OF assms(1,2)] assms(3) by blast
  let ?f = "\<lambda>r. if rel_identity r \<in> set (map rel_identity sub)
                  then r\<lparr> rel_properties := filter (\<lambda>kv. snd kv \<noteq> PNull) ps \<rparr> else r"
  have "filter (\<lambda>r. \<not> P r) (map ?f (relationships g)) = map ?f (filter (\<lambda>r. \<not> P r) (relationships g))"
    by (simp add: filter_map comp_def assms(4) cong: if_cong)
  also have "\<dots> = map (\<lambda>r. r) (filter (\<lambda>r. \<not> P r) (relationships g))"
    using out by (intro map_cong) auto
  finally show ?thesis
    by (simp add: set_rel_properties_def)
qed

lemma merge_single_result:
  fixes g :: graph and relType :: string and s t :: nat and ps :: props
  defines "merged \<equiv> merge_row relType (s, t) (g, [])"
  defines "g1 \<equiv> set_rel_properties ps (map (\<lambda>row. snd (snd row)) (snd merged)) (fst merged)"
  defines "g' \<equiv> delete_relationships (map rel_identity (concat (map (old_rels g1 relType) (snd merged)))) g1"
  assumes dist: "distinct (map rel_identity (relationships g))"
  shows "nodes g' = nodes g"
    and "length (rels_to_vnodes g' relType s) \<le> 1"
    and "r \<in> set (rels_to_vnodes g' relType s)
           \<Longrightarrow> endNode r = t \<and> rel_properties r = filter (\<lambda>kv. snd kv \<noteq> PNull) ps"
    and "length (rels_between g relType s t) \<le> 1 \<Longrightarrow> is_labelled g t ''VNode''
           \<Longrightarrow> length (rels_to_vnodes g' relType s) = 1"
    and "is_labelled g t ''VNode''
           \<Longrightarrow> filter (\<lambda>r. \<not> (rel_type r = relType \<and> startNode r = s \<and> is_labelled g (endNode r) ''VNode''))
                 (relationships g')
               = filter (\<lambda>r. \<not> (rel_type r = relType \<and> startNode r = s \<and> is_labelled g (endNode r) ''VNode''))
                 (relationships g)"
proof -
  define rows where "rows = snd merged"
  define gm where "gm = fst merged"
  define rids where "rids = map (\<lambda>row. snd (snd row)) rows"
  define ps' where "ps' = filter (\<lambda>kv. snd kv \<noteq> PNull) ps"
  have g1: "g1 = set_rel_properties ps rids gm"
    by (simp add: g1_def rids_def rows_def gm_def)
  have g': "g' = delete_relationships (map rel_identity (concat (map (old_rels g1 relType) rows))) g1"
    by (simp add: g'_def rows_def)
  have rows_ne: "rows \<noteq> []"
    unfolding rows_def merged_def by (rule merge_row_rows_nonempty)
  have rows_s: "\<And>row. row \<in> set rows \<Longrightarrow> fst row = s"
    unfolding rows_def merged_def by (rule merge_row_rows_fst)
  have dm: "distinct (map rel_identity (relationships gm))"
    unfolding gm_def merged_def using dist by (rule merge_row_distinct)
  have d1: "distinct (map rel_identity (relationships g1))"
    using dm by (simp add: g1)
  have nm: "nodes gm = nodes g"
    unfolding gm_def merged_def by (rule merge_row_nodes)
  have n1: "nodes g1 = nodes g"
    by (simp add: g1 nm)
  show n': "nodes g' = nodes g"
    by (simp add: g' n1)
  have rid_iff: "\<And>rid. rid \<in> set rids \<longleftrightarrow> (\<exists>r0 \<in> set (rels_between gm relType s t). rel_identity r0 = rid)"
    using merge_row_rids [of _ relType s t g]
    by (simp add: rids_def rows_def gm_def merged_def image_image)
  have out': "rels_to_vnodes g' relType s
      = filter (\<lambda>r. rel_identity r \<notin> set (map rel_identity (concat (map (old_rels g1 relType) rows))))
          (rels_to_vnodes g1 relType s)"
    unfolding g' by (rule rels_to_vnodes_delete)
  have all_rids: "rel_identity r = rid"
    if r: "r \<in> set (rels_to_vnodes g' relType s)" and rid: "rid \<in> set rids" for r rid
  proof (rule ccontr)
    assume ne: "rel_identity r \<noteq> rid"
    from rid obtain row where row: "row \<in> set rows" "snd (snd row) = rid"
      by (auto simp: rids_def)
    from r have r1: "r \<in> set (rels_to_vnodes g1 relType s)"
      and nd: "rel_identity r \<notin> set (map rel_identity (concat (map (old_rels g1 relType) rows)))"
      by (simp_all add: out')
    have "rel_identity r \<in> set (map rel_identity (concat (map (old_rels g1 relType) rows)))"
      unfolding old_rels_ids using row r1 ne rows_s [OF row(1)] by auto
    with nd show False by simp
  qed
  have in_g1: "r \<in> set (relationships g1)" if "r \<in> set (rels_to_vnodes g' relType s)" for r
    using that by (simp add: out' rels_to_vnodes_iff)
  show "length (rels_to_vnodes g' relType s) \<le> 1"
  proof -
    obtain rid where rid: "rid \<in> set rids"
      using rows_ne by (cases rows) (auto simp: rids_def)
    have eq: "rels_to_vnodes g' relType s
        = filter (\<lambda>r. (rel_type r = relType \<and> startNode r = s \<and> is_labelled g1 (endNode r) ''VNode'')
                      \<and> rel_identity r \<notin> set (map rel_identity (concat (map (old_rels g1 relType) rows))))
            (relationships g1)"
      unfolding out' by (simp only: rels_to_vnodes_def filter_filter)
    have "\<And>x. x \<in> set (relationships g1) \<Longrightarrow>
            (rel_type x = relType \<and> startNode x = s \<and> is_labelled g1 (endNode x) ''VNode'')
              \<and> rel_identity x \<notin> set (map rel_identity (concat (map (old_rels g1 relType) rows)))
            \<Longrightarrow> rel_identity x = rid"
    proof -
      fix x assume "x \<in> set (relationships g1)"
        and "(rel_type x = relType \<and> startNode x = s \<and> is_labelled g1 (endNode x) ''VNode'')
              \<and> rel_identity x \<notin> set (map rel_identity (concat (map (old_rels g1 relType) rows)))"
      then have "x \<in> set (rels_to_vnodes g' relType s)"
        unfolding eq by simp
      then show "rel_identity x = rid" using rid by (rule all_rids)
    qed
    with d1 show ?thesis
      unfolding eq by (rule filter_unique_id)
  qed
  show "endNode r = t \<and> rel_properties r = filter (\<lambda>kv. snd kv \<noteq> PNull) ps"
    if r: "r \<in> set (rels_to_vnodes g' relType s)"
  proof -
    obtain rid where rid: "rid \<in> set rids"
      using rows_ne by (cases rows) (auto simp: rids_def)
    have id_r: "rel_identity r = rid" using r rid by (rule all_rids)
    from in_g1 [OF r] obtain r0 where r0: "r0 \<in> set (relationships gm)"
      and r_eq: "r = (if rel_identity r0 \<in> set rids then r0\<lparr> rel_properties := ps' \<rparr> else r0)"
      unfolding g1 set_rel_properties_mem ps'_def by blast
    have id0: "rel_identity r0 = rid"
      using id_r r_eq by (simp split: if_splits)
    then have r_eq': "r = r0\<lparr> rel_properties := ps' \<rparr>"
      using r_eq rid by simp
    from rid obtain rb where rb: "rb \<in> set (rels_between gm relType s t)" "rel_identity rb = rid"
      using rid_iff by blast
    then have "rb \<in> set (relationships gm)" "endNode rb = t"
      by (simp_all add: rels_between_iff)
    with dm r0 id0 rb(2) have "rb = r0"
      by (intro same_id_same_rel [of "relationships gm"]) simp_all
    with \<open>endNode rb = t\<close> r_eq' show ?thesis
      by (simp add: ps'_def)
  qed
  show "length (rels_to_vnodes g' relType s) = 1"
    if one: "length (rels_between g relType s t) \<le> 1" and lab: "is_labelled g t ''VNode''"
  proof -
    have rows1: "length rows = 1"
      using one unfolding rows_def merged_def
      by (cases "rels_between g relType s t") (simp_all add: merge_row_cases)
    then obtain row where rows: "rows = [row]"
      by (cases rows) simp_all
    define rid where "rid = snd (snd row)"
    have rids1: "rids = [rid]" by (simp add: rids_def rows rid_def)
    then have "rid \<in> set rids" by simp
    then obtain rb where rb: "rb \<in> set (rels_between gm relType s t)" "rel_identity rb = rid"
      using rid_iff by blast
    define r1 where "r1 = rb\<lparr> rel_properties := ps' \<rparr>"
    have rb_in: "rb \<in> set (relationships gm)" "rel_type rb = relType" "startNode rb = s" "endNode rb = t"
      using rb(1) by (simp_all add: rels_between_iff)
    have "r1 \<in> set (relationships g1)"
      unfolding g1 set_rel_properties_mem using rb_in(1) rb(2) rids1
      by (intro bexI [where x = rb]) (simp_all add: r1_def ps'_def)
    moreover have "is_labelled g1 t ''VNode''"
      using lab is_labelled_nodes [OF n1] by simp
    ultimately have r1_out: "r1 \<in> set (rels_to_vnodes g1 relType s)"
      using rb_in by (simp add: rels_to_vnodes_iff r1_def)
    have "rel_identity r1 \<notin> set (map rel_identity (concat (map (old_rels g1 relType) rows)))"
    proof
      assume "rel_identity r1 \<in> set (map rel_identity (concat (map (old_rels g1 relType) rows)))"
      then have "rel_identity r1 \<noteq> snd (snd row)"
        unfolding old_rels_ids by (auto simp: rows)
      then show False by (simp add: r1_def rb(2) rid_def)
    qed
    with r1_out have "r1 \<in> set (rels_to_vnodes g' relType s)"
      by (simp add: out')
    then have "length (rels_to_vnodes g' relType s) \<ge> 1"
      by (cases "rels_to_vnodes g' relType s") simp_all
    with \<open>length (rels_to_vnodes g' relType s) \<le> 1\<close> show ?thesis by simp
  qed
  show "filter (\<lambda>r. \<not> (rel_type r = relType \<and> startNode r = s \<and> is_labelled g (endNode r) ''VNode''))
          (relationships g')
        = filter (\<lambda>r. \<not> (rel_type r = relType \<and> startNode r = s \<and> is_labelled g (endNode r) ''VNode''))
          (relationships g)"
    if lab: "is_labelled g t ''VNode''"
  proof -
    let ?P = "\<lambda>r. rel_type r = relType \<and> startNode r = s \<and> is_labelled g (endNode r) ''VNode''"
    have lab1: "\<And>x. is_labelled g1 x ''VNode'' = is_labelled g x ''VNode''"
      by (rule is_labelled_nodes) (rule n1)
    have m: "filter (\<lambda>r. \<not> ?P r) (relationships gm) = filter (\<lambda>r. \<not> ?P r) (relationships g)"
      unfolding gm_def merged_def using lab
      by (simp add: merge_row_cases create_relationship_def)
    have rids_eq: "rids = map rel_identity (rels_between gm relType s t)"
    proof (cases "rels_between g relType s t = []")
      case True
      have "rels_between (create_relationship (s, relType, [], t) g) relType s t
              = [\<lparr> rel_identity = next_rel_id g, rel_type = relType, startNode = s, endNode = t,
                    rel_properties = [] \<rparr>]"
        using True by (simp add: rels_between_def create_relationship_def)
      then show ?thesis
        using True by (simp add: rids_def rows_def gm_def merged_def merge_row_cases)
    next
      case False
      then show ?thesis
        by (simp add: rids_def rows_def gm_def merged_def merge_row_cases comp_def)
    qed
    have "filter (\<lambda>r. \<not> ?P r) (relationships g1) = filter (\<lambda>r. \<not> ?P r) (relationships gm)"
      unfolding g1 rids_eq
    proof (rule filter_set_outside [OF dm])
      show "set (rels_between gm relType s t) \<subseteq> set (relationships gm)"
        by (auto simp: rels_between_iff)
      show "\<And>r. r \<in> set (rels_between gm relType s t) \<Longrightarrow> ?P r"
        using lab by (simp add: rels_between_iff)
      show "\<And>r qs. ?P (r\<lparr> rel_properties := qs \<rparr>) = ?P r"
        by simp
    qed
    moreover have "filter (\<lambda>r. \<not> ?P r) (relationships g') = filter (\<lambda>r. \<not> ?P r) (relationships g1)"
      unfolding g'
    proof (rule filter_delete_outside [OF d1])
      show "set (concat (map (old_rels g1 relType) rows)) \<subseteq> set (relationships g1)"
        by (auto simp: old_rels_def rels_to_vnodes_iff split: prod.splits)
      show "\<And>r. r \<in> set (concat (map (old_rels g1 relType) rows)) \<Longrightarrow> ?P r"
        using rows_s by (fastforce simp: old_rels_def rels_to_vnodes_iff lab1 split: prod.splits)
    qed
    ultimately show ?thesis
      using m by simp
  qed
qed


lemma find_node_distinct:
  "distinct (map identity ns) \<Longrightarrow> n \<in> set ns \<Longrightarrow> find (\<lambda>m. identity m = identity n) ns = Some n"
  by (induction ns) (auto simp: rev_image_eqI)

lemma is_labelled_member:
  assumes "distinct (map identity (nodes g))" "n \<in> set (nodes g)" "l \<in> set (labels n)"
  shows "is_labelled g (identity n) l"
  using find_node_distinct [OF assms(1,2)] assms(3)
  by (simp add: is_labelled_def labels_of_def find_node_def)

lemma prevTo_of_old_targets:
  "prevTo_of (old_targets g relType s)
     = (case rels_to_vnodes g relType s of
          [] \<Rightarrow> [(''key'', PNull)]
        | r # _ \<Rightarrow> js_spread [(''key'', vnid_of g (endNode r))] (rel_properties r))"
  by (simp add: prevTo_of_def old_targets_def split: list.splits)

lemma merge_rows_result:
  assumes "rows \<noteq> []" and "\<And>row. row \<in> set rows \<Longrightarrow> fst row = s"
  shows "concat (map (\<lambda>(row, old). replicate (max 1 (length old)) (old_targets g relType (fst row)))
                   (zip rows (map f rows))) \<noteq> []
         \<and> hd (concat (map (\<lambda>(row, old). replicate (max 1 (length old)) (old_targets g relType (fst row)))
                   (zip rows (map f rows)))) = old_targets g relType s"
proof (cases rows)
  case Nil
  with assms(1) show ?thesis by simp
next
  case (Cons row rest)
  have "fst row = s" using assms(2) Cons by simp
  moreover have "replicate (max 1 (length (f row))) (old_targets g relType s)
      = old_targets g relType s # replicate (max 1 (length (f row)) - 1) (old_targets g relType s)"
    by (cases "max 1 (length (f row))") simp_all
  ultimately show ?thesis
    using Cons by simp
qed

lemma clear_relationship_single:
  assumes "from_nodes cs g fromType fromId = [self]"
  shows "fst (clear_relationship cs g fromType fromId relType)
           = delete_relationships (map rel_identity (rels_to_vnodes g relType (identity self))) g"
    and "prevTo_of (snd (clear_relationship cs g fromType fromId relType))
           = prevTo_of (old_targets g relType (identity self))"
  by (simp_all add: clear_relationship_def assms Let_def old_targets_def)

lemma merge_relationship_single:
  assumes "from_nodes cs g fromType fromId = [self]" "target_nodes cs g toKey targetLabels = [target]"
  shows "merge_relationship cs g fromType fromId relType targetLabels toKey ps =
     (let merged = merge_row relType (identity self, identity target) (g, []);
          g1 = set_rel_properties ps (map (\<lambda>row. snd (snd row)) (snd merged)) (fst merged);
          olds = map (old_rels g1 relType) (snd merged)
      in (delete_relationships (map rel_identity (concat olds)) g1,
          concat (map (\<lambda>(row, old). replicate (max 1 (length old)) (old_targets g relType (fst row)))
                    (zip (snd merged) olds))))"
  by (simp add: merge_relationship_def assms)

lemma map_of_js_set: "map_of (js_set obj k v) = (map_of obj)(k \<mapsto> v)"
  by (induction obj) (auto simp: fun_upd_twist)

lemma map_of_js_spread: "map_of (js_spread obj src) = map_of obj ++ map_of (rev src)"
  unfolding js_spread_def
proof (induction src arbitrary: obj)
  case Nil
  then show ?case by simp
next
  case (Cons kv src)
  have "map_of (fold (\<lambda>kv acc. js_set acc (fst kv) (snd kv)) src (js_set obj (fst kv) (snd kv)))
          = (map_of obj)(fst kv \<mapsto> snd kv) ++ map_of (rev src)"
    by (simp only: Cons.IH map_of_js_set)
  also have "\<dots> = map_of obj ++ map_of (rev (kv # src))"
    by (cases kv) (auto simp: map_add_def fun_eq_iff split: option.splits)
  finally show ?case by simp
qed

lemma js_spread_key:
  "getProp (js_spread [(k, v)] src) k = (case map_of (rev src) k of None \<Rightarrow> v | Some w \<Rightarrow> w)"
  by (simp add: getProp_def map_of_js_spread map_add_def split: option.splits)

text \<open>
  C9, as amended. Let the call succeed, with the from-node matched once and, when \<open>to\<close>
  has a key, the target matched once, in a graph whose relationships and nodes have
  distinct identities. Then the nodes are unchanged, and among the relationships of the
  declared type from the from-node to nodes that carry the VNode label there is at most
  one: none when \<open>to\<close> is null; when \<open>to\<close> has a key, any such relationship points at the
  target and has the given properties (without null entries), and there is exactly one
  when at most one relationship of that type ran from the from-node to the target before.
  All other relationships (of another type, from another node, or to a node that does not
  carry the VNode label) are the same after the call as before, in the same order.
  \<open>prevTo\<close> is the object \<open>{key: id, ...properties}\<close> made of the VNID of the target and
  the properties of the first relationship of the type that ran from the from-node to a
  node with the VNode label before the call, and \<open>{key: null}\<close> when there was none; so
  its key is that VNID unless the relationship has a property named \<open>key\<close>, whose value it
  then is.
\<close>

theorem updateToOneRelationship_at_most_one:
  assumes ok: "updateToOneRelationship cs g fromType fromId rel to = Inr (g', prevTo)"
    and relType: "rd_relType rel = Some relType"
    and self: "from_nodes cs g fromType fromId = [self]"
    and target: "case fst (split_to to) of None \<Rightarrow> True
                 | Some toKey \<Rightarrow> target_nodes cs g toKey (rd_to rel) = [target]"
    and dist: "distinct (map rel_identity (relationships g))" "distinct (map identity (nodes g))"
  shows "nodes g' = nodes g
    \<and> length (rels_to_vnodes g' relType (identity self)) \<le> 1
    \<and> (fst (split_to to) = None \<longrightarrow> rels_to_vnodes g' relType (identity self) = [])
    \<and> (fst (split_to to) \<noteq> None \<longrightarrow>
         (\<forall>r \<in> set (rels_to_vnodes g' relType (identity self)).
             endNode r = identity target
             \<and> rel_properties r = filter (\<lambda>kv. snd kv \<noteq> PNull) (snd (split_to to)))
         \<and> (length (rels_between g relType (identity self) (identity target)) \<le> 1
              \<longrightarrow> length (rels_to_vnodes g' relType (identity self)) = 1))
    \<and> filter (\<lambda>r. \<not> (rel_type r = relType \<and> startNode r = identity self
                       \<and> is_labelled g (endNode r) ''VNode'')) (relationships g')
        = filter (\<lambda>r. \<not> (rel_type r = relType \<and> startNode r = identity self
                           \<and> is_labelled g (endNode r) ''VNode'')) (relationships g)
    \<and> prevTo = (case rels_to_vnodes g relType (identity self) of
                  [] \<Rightarrow> [(''key'', PNull)]
                | r # _ \<Rightarrow> js_spread [(''key'', vnid_of g (endNode r))] (rel_properties r))
    \<and> getProp prevTo ''key'' = (case rels_to_vnodes g relType (identity self) of
                  [] \<Rightarrow> PNull
                | r # _ \<Rightarrow> (case map_of (rev (rel_properties r)) ''key'' of
                              None \<Rightarrow> vnid_of g (endNode r) | Some w \<Rightarrow> w))"
proof -
  have main: "nodes g' = nodes g
    \<and> length (rels_to_vnodes g' relType (identity self)) \<le> 1
    \<and> (fst (split_to to) = None \<longrightarrow> rels_to_vnodes g' relType (identity self) = [])
    \<and> (fst (split_to to) \<noteq> None \<longrightarrow>
         (\<forall>r \<in> set (rels_to_vnodes g' relType (identity self)).
             endNode r = identity target
             \<and> rel_properties r = filter (\<lambda>kv. snd kv \<noteq> PNull) (snd (split_to to)))
         \<and> (length (rels_between g relType (identity self) (identity target)) \<le> 1
              \<longrightarrow> length (rels_to_vnodes g' relType (identity self)) = 1))
    \<and> filter (\<lambda>r. \<not> (rel_type r = relType \<and> startNode r = identity self
                       \<and> is_labelled g (endNode r) ''VNode'')) (relationships g')
        = filter (\<lambda>r. \<not> (rel_type r = relType \<and> startNode r = identity self
                           \<and> is_labelled g (endNode r) ''VNode'')) (relationships g)
    \<and> prevTo = (case rels_to_vnodes g relType (identity self) of
                  [] \<Rightarrow> [(''key'', PNull)]
                | r # _ \<Rightarrow> js_spread [(''key'', vnid_of g (endNode r))] (rel_properties r))"
  proof (cases "fst (split_to to)")
    case None
    from ok relType None have g': "g' = fst (clear_relationship cs g fromType fromId relType)"
      and p: "prevTo = prevTo_of (snd (clear_relationship cs g fromType fromId relType))"
      by (simp_all add: updateToOneRelationship_def getRelationshipType_def Let_def
          split: if_splits option.splits)
    have g'': "g' = delete_relationships (map rel_identity (rels_to_vnodes g relType (identity self))) g"
      using g' clear_relationship_single(1) [OF self] by simp
    have "rels_to_vnodes g' relType (identity self) = []"
      unfolding g'' rels_to_vnodes_delete by (simp add: filter_empty_conv)
    moreover have "nodes g' = nodes g"
      by (simp add: g'')
    moreover have "prevTo = prevTo_of (old_targets g relType (identity self))"
      using p clear_relationship_single(2) [OF self] by simp
    moreover have "filter (\<lambda>r. \<not> (rel_type r = relType \<and> startNode r = identity self
                       \<and> is_labelled g (endNode r) ''VNode'')) (relationships g')
        = filter (\<lambda>r. \<not> (rel_type r = relType \<and> startNode r = identity self
                           \<and> is_labelled g (endNode r) ''VNode'')) (relationships g)"
      unfolding g''
      by (rule filter_delete_outside [OF dist(1)]) (auto simp: rels_to_vnodes_iff)
    ultimately show ?thesis
      using None by (simp add: prevTo_of_old_targets)
  next
    case (Some toKey)
    define s where "s = identity self"
    define t where "t = identity target"
    define ps where "ps = snd (split_to to)"
    define merged where "merged = merge_row relType (s, t) (g, [])"
    define g1 where "g1 = set_rel_properties ps (map (\<lambda>row. snd (snd row)) (snd merged)) (fst merged)"
    define gr where "gr = delete_relationships (map rel_identity (concat (map (old_rels g1 relType) (snd merged)))) g1"
    have tg: "target_nodes cs g toKey (rd_to rel) = [target]"
      using target Some by simp
    have mr: "merge_relationship cs g fromType fromId relType (rd_to rel) toKey ps
        = (gr, concat (map (\<lambda>(row, old). replicate (max 1 (length old)) (old_targets g relType (fst row)))
                      (zip (snd merged) (map (old_rels g1 relType) (snd merged)))))"
      unfolding merge_relationship_single [OF self tg]
      by (simp add: Let_def gr_def g1_def merged_def s_def t_def)
    have rows: "snd merged \<noteq> []" "\<And>row. row \<in> set (snd merged) \<Longrightarrow> fst row = s"
      unfolding merged_def by (rule merge_row_rows_nonempty, rule merge_row_rows_fst)
    note res = merge_rows_result [OF rows, of g relType "old_rels g1 relType"]
    note mr' = mr [unfolded ps_def]
    from ok relType Some
    have "fst (merge_relationship cs g fromType fromId relType (rd_to rel) toKey (snd (split_to to))) = g'"
      and "prevTo_of (hd (snd (merge_relationship cs g fromType fromId relType (rd_to rel) toKey
                                 (snd (split_to to))))) = prevTo"
      by (simp_all add: updateToOneRelationship_def getRelationshipType_def Let_def
          split: if_splits option.splits)
    then have g': "g' = gr" and p: "prevTo = prevTo_of (old_targets g relType s)"
      using res by (simp_all add: mr')
    note m = merge_single_result [OF dist(1), where relType = relType and s = s and t = t and ps = ps,
        folded merged_def]
    have "target \<in> set (target_nodes cs g toKey (rd_to rel))"
      by (simp add: tg)
    then have "target \<in> set (nodes g)" "''VNode'' \<in> set (labels target)"
      by (simp_all add: target_nodes_def)
    then have lab: "is_labelled g t ''VNode''"
      unfolding t_def using dist(2) by (intro is_labelled_member)
    show ?thesis
      using Some m(1) m(2) m(3) m(4) [OF _ lab] m(5) [OF lab] p
      by (simp add: g' gr_def g1_def prevTo_of_old_targets s_def [symmetric] t_def [symmetric]
          ps_def [symmetric])
  qed
  then have p: "prevTo = (case rels_to_vnodes g relType (identity self) of
                  [] \<Rightarrow> [(''key'', PNull)]
                | r # _ \<Rightarrow> js_spread [(''key'', vnid_of g (endNode r))] (rel_properties r))"
    by simp
  have "getProp prevTo ''key'' = (case rels_to_vnodes g relType (identity self) of
                  [] \<Rightarrow> PNull
                | r # _ \<Rightarrow> (case map_of (rev (rel_properties r)) ''key'' of
                              None \<Rightarrow> vnid_of g (endNode r) | Some w \<Rightarrow> w))"
  proof (cases "rels_to_vnodes g relType (identity self)")
    case Nil
    then show ?thesis by (simp add: p getProp_def)
  next
    case (Cons r rest)
    then show ?thesis by (simp add: p js_spread_key)
  qed
  with main show ?thesis
    by (elim conjE, intro conjI) assumption+
qed

lemmas update_fixture_defs = FRANCHISE_IS_def Movie_def sugar_def db_link_def db_unlinked_def db_links_def
  system_user_def franchise_node_def movie_node_def franchise_is_def

lemma from_movie:
  "from_nodes sugar (db_link l) Movie ''_gotg'' = [movie_node 4 [''TestMovie'', ''VNode'']]"
  "from_nodes sugar db_unlinked Movie ''_gotg'' = [movie_node 4 [''TestMovie'', ''VNode'']]"
  "from_nodes sugar (db_links rs) Movie ''_gotg'' = [movie_node 4 [''TestMovie'', ''VNode'']]"
  by (simp_all add: from_nodes_def update_fixture_defs getProp_def)

lemma target_franchise:
  "target_nodes sugar db_unlinked ''mcu'' (rd_to FRANCHISE_IS) = [franchise_node 2 [''TestMovieFranchise'', ''VNode'']]"
  "target_nodes sugar (db_links rs) ''mcu'' (rd_to FRANCHISE_IS) = [franchise_node 2 [''TestMovieFranchise'', ''VNode'']]"
  by (simp_all add: target_nodes_def update_fixture_defs getProp_def)

lemma out_linked:
  "rels_to_vnodes (db_link ''VNode'') ''FRANCHISE_IS'' 4 = [franchise_is 14 4 2 []]"
  "rels_to_vnodes (db_link ''DeletedVNode'') ''FRANCHISE_IS'' 4 = []"
  "rels_to_vnodes db_unlinked ''FRANCHISE_IS'' 4 = []"
  "rels_to_vnodes (db_links [franchise_is 14 4 2 qs]) ''FRANCHISE_IS'' 4 = [franchise_is 14 4 2 qs]"
  "rels_to_vnodes (db_links [franchise_is 14 4 2 [], franchise_is 15 4 2 []]) ''FRANCHISE_IS'' 4
     = [franchise_is 14 4 2 [], franchise_is 15 4 2 []]"
  by (simp_all add: rels_to_vnodes_def update_fixture_defs is_labelled_def labels_of_def find_node_def)

lemma declared:
  "rd_to FRANCHISE_IS = [''TestMovieFranchise'']" "rd_relType FRANCHISE_IS = Some ''FRANCHISE_IS''"
  "map_of (vnt_rel Movie) ''FRANCHISE_IS'' = Some FRANCHISE_IS"
  by (simp_all add: FRANCHISE_IS_def Movie_def)

lemma fixture_ids:
  "identity (movie_node 4 [''TestMovie'', ''VNode'']) = 4"
  "identity (franchise_node 2 [''TestMovieFranchise'', ''VNode'']) = 2"
  by (simp_all add: movie_node_def franchise_node_def)

lemma clear_linked:
  "updateToOneRelationship sugar (db_link ''VNode'') Movie ''_gotg'' FRANCHISE_IS ToNull
     = Inr (db_unlinked, [(''key'', PStr ''_mcu'')])"
proof -
  have c: "clear_relationship sugar (db_link ''VNode'') Movie ''_gotg'' ''FRANCHISE_IS''
             = (db_unlinked, [(PStr ''_mcu'', [])])"
    by (simp add: clear_relationship_def from_movie fixture_ids out_linked Let_def)
       (simp add: delete_relationships_def update_fixture_defs vnid_of_def find_node_def getProp_def)
  show ?thesis
    by (simp add: updateToOneRelationship_def getRelationshipType_def split_to_def declared c prevTo_of_def
        js_spread_def)
qed

lemma clear_soft_deleted:
  "updateToOneRelationship sugar (db_link ''DeletedVNode'') Movie ''_gotg'' FRANCHISE_IS ToNull
     = Inr (db_link ''DeletedVNode'', [(''key'', PNull)])"
proof -
  have c: "clear_relationship sugar (db_link ''DeletedVNode'') Movie ''_gotg'' ''FRANCHISE_IS''
             = (db_link ''DeletedVNode'', [])"
    by (simp add: clear_relationship_def from_movie fixture_ids out_linked Let_def delete_relationships_def)
  show ?thesis
    by (simp add: updateToOneRelationship_def getRelationshipType_def split_to_def declared c prevTo_of_def)
qed

lemma clear_key_property:
  "updateToOneRelationship sugar (db_links [franchise_is 14 4 2 [(''key'', PStr ''x'')]]) Movie ''_gotg''
       FRANCHISE_IS ToNull
     = Inr (db_links [], [(''key'', PStr ''x'')])"
proof -
  have c: "clear_relationship sugar (db_links [franchise_is 14 4 2 [(''key'', PStr ''x'')]]) Movie ''_gotg''
               ''FRANCHISE_IS''
             = (db_links [], [(PStr ''_mcu'', [(''key'', PStr ''x'')])])"
    by (simp add: clear_relationship_def from_movie fixture_ids out_linked Let_def)
       (simp add: delete_relationships_def update_fixture_defs vnid_of_def find_node_def getProp_def)
  show ?thesis
    by (simp add: updateToOneRelationship_def getRelationshipType_def split_to_def declared c prevTo_of_def
        js_spread_def)
qed

lemma link_unlinked:
  "updateToOneRelationship sugar db_unlinked Movie ''_gotg'' FRANCHISE_IS (ToSpec (Some ''mcu'') [(''weight'', PInt 1)])
     = Inr (db_unlinked\<lparr> relationships := [franchise_is 1 4 2 [(''weight'', PInt 1)]] \<rparr>,
            [(''key'', PNull)])"
proof -
  have m: "merge_row ''FRANCHISE_IS'' (4, 2) (db_unlinked, [])
      = (db_unlinked\<lparr> relationships := [franchise_is 1 4 2 []] \<rparr>, [(4, 2, 1)])"
    by (simp add: merge_row_def rels_between_def create_relationship_def next_rel_id_def db_unlinked_def
        franchise_is_def)
  have s: "set_rel_properties [(''weight'', PInt 1)] [Suc 0]
             (db_unlinked\<lparr> relationships := [franchise_is (Suc 0) 4 2 []] \<rparr>)
      = db_unlinked\<lparr> relationships := [franchise_is (Suc 0) 4 2 [(''weight'', PInt 1)]] \<rparr>"
    by (simp add: set_rel_properties_def franchise_is_def db_unlinked_def)
  have o: "old_rels (db_unlinked\<lparr> relationships := [franchise_is (Suc 0) 4 2 [(''weight'', PInt 1)]] \<rparr>)
             ''FRANCHISE_IS'' (4, 2, Suc 0) = []"
    by (simp add: old_rels_def rels_to_vnodes_def franchise_is_def)
  have mr: "merge_relationship sugar db_unlinked Movie ''_gotg'' ''FRANCHISE_IS'' [''TestMovieFranchise''] ''mcu''
              [(''weight'', PInt 1)]
      = (db_unlinked\<lparr> relationships := [franchise_is 1 4 2 [(''weight'', PInt 1)]] \<rparr>, [[]])"
    using target_franchise(1)
    by (simp add: merge_relationship_def from_movie declared fixture_ids m s o Let_def delete_relationships_def
        old_targets_def out_linked)
  show ?thesis
    by (simp add: updateToOneRelationship_def getRelationshipType_def split_to_def declared mr prevTo_of_def)
qed

lemma link_parallel:
  "updateToOneRelationship sugar (db_links [franchise_is 14 4 2 [], franchise_is 15 4 2 []]) Movie ''_gotg''
       FRANCHISE_IS (ToKey ''mcu'')
     = Inr (db_links [], [(''key'', PStr ''_mcu'')])"
proof -
  let ?g = "db_links [franchise_is 14 4 2 [], franchise_is 15 4 2 []]"
  have m: "merge_row ''FRANCHISE_IS'' (4, 2) (?g, []) = (?g, [(4, 2, 14), (4, 2, 15)])"
    by (simp add: merge_row_def rels_between_def db_links_def franchise_is_def)
  have s: "set_rel_properties [] [14, 15] ?g = ?g"
    by (simp add: set_rel_properties_def franchise_is_def db_links_def)
  have o: "old_rels ?g ''FRANCHISE_IS'' (4, 2, 14) = [franchise_is 15 4 2 []]"
    "old_rels ?g ''FRANCHISE_IS'' (4, 2, 15) = [franchise_is 14 4 2 []]"
    by (simp_all add: old_rels_def out_linked) (simp_all add: franchise_is_def)
  have d: "delete_relationships [15, 14] ?g = db_links []"
    by (simp add: delete_relationships_def db_links_def franchise_is_def)
  have v: "vnid_of ?g 2 = PStr ''_mcu''"
    by (simp add: vnid_of_def find_node_def update_fixture_defs getProp_def)
  have e: "endNode (franchise_is 14 4 2 []) = 2" "rel_properties (franchise_is 14 4 2 []) = []"
    "rel_identity (franchise_is 14 4 2 []) = 14" "rel_identity (franchise_is 15 4 2 []) = 15"
    "endNode (franchise_is 15 4 2 []) = 2" "rel_properties (franchise_is 15 4 2 []) = []"
    by (simp_all add: franchise_is_def)
  have mr: "merge_relationship sugar ?g Movie ''_gotg'' ''FRANCHISE_IS'' [''TestMovieFranchise''] ''mcu'' []
      = (db_links [], [[(PStr ''_mcu'', []), (PStr ''_mcu'', [])], [(PStr ''_mcu'', []), (PStr ''_mcu'', [])]])"
    using target_franchise(2) [of "[franchise_is 14 4 2 [], franchise_is 15 4 2 []]"]
    by (simp add: merge_relationship_def from_movie declared fixture_ids m s o d e v Let_def
        old_targets_def out_linked)
  show ?thesis
    by (simp add: updateToOneRelationship_def getRelationshipType_def split_to_def declared mr prevTo_of_def
        js_spread_def)
qed

lemma distinct_fixtures:
  "distinct (map rel_identity (relationships (db_link l)))" "distinct (map identity (nodes (db_link l)))"
  "distinct (map rel_identity (relationships db_unlinked))" "distinct (map identity (nodes db_unlinked))"
  by (simp_all add: update_fixture_defs)

theorem updateToOneRelationship_at_most_one_witness:
  "updateToOneRelationship sugar (db_link ''VNode'') Movie ''_gotg'' FRANCHISE_IS ToNull
     = Inr (db_unlinked, [(''key'', PStr ''_mcu'')])
   \<and> from_nodes sugar (db_link ''VNode'') Movie ''_gotg'' = [movie_node 4 [''TestMovie'', ''VNode'']]
   \<and> rels_to_vnodes (db_link ''VNode'') ''FRANCHISE_IS'' 4 = [franchise_is 14 4 2 []]
   \<and> rels_to_vnodes db_unlinked ''FRANCHISE_IS'' 4 = []
   \<and> getProp [(''key'', PStr ''_mcu'')] ''key'' = vnid_of (db_link ''VNode'') 2
   \<and> updateToOneRelationship sugar db_unlinked Movie ''_gotg'' FRANCHISE_IS
         (ToSpec (Some ''mcu'') [(''weight'', PInt 1)])
     = Inr (db_unlinked\<lparr> relationships := [franchise_is 1 4 2 [(''weight'', PInt 1)]] \<rparr>, [(''key'', PNull)])
   \<and> target_nodes sugar db_unlinked ''mcu'' (rd_to FRANCHISE_IS)
       = [franchise_node 2 [''TestMovieFranchise'', ''VNode'']]
   \<and> length (rels_to_vnodes (db_unlinked\<lparr> relationships := [franchise_is 1 4 2 [(''weight'', PInt 1)]] \<rparr>)
                ''FRANCHISE_IS'' 4) = 1"
proof -
  have t1: "case fst (split_to ToNull) of None \<Rightarrow> True
            | Some toKey \<Rightarrow> target_nodes sugar (db_link ''VNode'') toKey (rd_to FRANCHISE_IS)
                             = [franchise_node 2 [''TestMovieFranchise'', ''VNode'']]"
    by (simp add: split_to_def)
  have t2: "case fst (split_to (ToSpec (Some ''mcu'') [(''weight'', PInt 1)])) of None \<Rightarrow> True
            | Some toKey \<Rightarrow> target_nodes sugar db_unlinked toKey (rd_to FRANCHISE_IS)
                             = [franchise_node 2 [''TestMovieFranchise'', ''VNode'']]"
    by (simp add: split_to_def target_franchise)
  have b: "rels_between db_unlinked ''FRANCHISE_IS'' 4 2 = []"
    by (simp add: rels_between_def db_unlinked_def)
  have e: "endNode (franchise_is 14 4 2 []) = 2" "rel_properties (franchise_is 14 4 2 []) = []"
    by (simp_all add: franchise_is_def)
  note a1 = updateToOneRelationship_at_most_one
            [OF clear_linked declared(2) from_movie(1) t1 distinct_fixtures(1,2)]
  note a2 = updateToOneRelationship_at_most_one
            [OF link_unlinked declared(2) from_movie(2) t2 distinct_fixtures(3,4)]
  note a1_key = a1 [THEN conjunct2, THEN conjunct2, THEN conjunct2, THEN conjunct2, THEN conjunct2,
      THEN conjunct2]
  note a2_one = a2 [THEN conjunct2, THEN conjunct2, THEN conjunct2, THEN conjunct1]
  from a1_key have k: "getProp [(''key'', PStr ''_mcu'')] ''key'' = vnid_of (db_link ''VNode'') 2"
    by (simp add: fixture_ids out_linked e)
  from a2_one have l: "length (rels_to_vnodes (db_unlinked\<lparr> relationships := [franchise_is 1 4 2 [(''weight'', PInt 1)]] \<rparr>)
                ''FRANCHISE_IS'' 4) = 1"
    by (simp add: fixture_ids b split_to_def)
  show ?thesis
    using k l clear_linked link_unlinked from_movie(1) target_franchise(1) out_linked(1,3)
    by simp
qed

text \<open>
  C9 as stated fails in three calls that succeed.
  When the relationship points at a soft-deleted node, the call with \<open>to\<close> null leaves the
  relationship of the declared type in place and returns a \<open>prevTo\<close> with key null although
  the from-node was linked.
  When the relationship has a property named \<open>key\<close>, the key of \<open>prevTo\<close> is the value of
  that property and not the id of the target (\<open>_mcu\<close>).
  When two relationships of the declared type run from the from-node to the target, the
  call with the key of that target leaves none.
\<close>

theorem updateToOneRelationship_counterexample:
  "updateToOneRelationship sugar (db_link ''DeletedVNode'') Movie ''_gotg'' FRANCHISE_IS ToNull
     = Inr (db_link ''DeletedVNode'', [(''key'', PNull)])
   \<and> from_nodes sugar (db_link ''DeletedVNode'') Movie ''_gotg'' = [movie_node 4 [''TestMovie'', ''VNode'']]
   \<and> filter (\<lambda>r. rel_type r = ''FRANCHISE_IS'' \<and> startNode r = 4) (relationships (db_link ''DeletedVNode''))
       = [franchise_is 14 4 2 []]
   \<and> updateToOneRelationship sugar (db_links [franchise_is 14 4 2 [(''key'', PStr ''x'')]]) Movie ''_gotg''
         FRANCHISE_IS ToNull
       = Inr (db_links [], [(''key'', PStr ''x'')])
   \<and> vnid_of (db_links [franchise_is 14 4 2 [(''key'', PStr ''x'')]])
         (endNode (franchise_is 14 4 2 [(''key'', PStr ''x'')])) = PStr ''_mcu''
   \<and> updateToOneRelationship sugar (db_links [franchise_is 14 4 2 [], franchise_is 15 4 2 []]) Movie ''_gotg''
         FRANCHISE_IS (ToKey ''mcu'')
       = Inr (db_links [], [(''key'', PStr ''_mcu'')])
   \<and> target_nodes sugar (db_links [franchise_is 14 4 2 [], franchise_is 15 4 2 []]) ''mcu'' (rd_to FRANCHISE_IS)
       = [franchise_node 2 [''TestMovieFranchise'', ''VNode'']]
   \<and> relationships (db_links []) = []"
  unfolding clear_soft_deleted clear_key_property link_parallel from_movie target_franchise
  by (simp add: update_fixture_defs vnid_of_def find_node_def getProp_def)

end
